theory Spec2Isabelle
  imports Complex_Main "HOL-Library.Option_ord" "HOL-Library.Multiset"
begin

section \<open>Request values\<close>

text \<open>
  A value of a parsed JSON request body. A property that is absent from the body reads
  as \<open>undefined\<close> in the controllers; here it is \<open>None\<close>, so a request property has
  type \<open>jsval option\<close> and a request body is a map from property names to values.
  Strings are lists of bytes (of the UTF-8 encoding, for text beyond ASCII).
\<close>

datatype jsval =
    JNull
  | JBool bool
  | JNum real
  | JStr string
  | JArr "jsval list"
  | JObj "(string \<times> jsval) list"

type_synonym body = "string \<Rightarrow> jsval option"

text \<open>JavaScript's truthiness, as used by \<open>!x\<close> and \<open>x || d\<close>.\<close>

fun truthy :: "jsval option \<Rightarrow> bool" where
  "truthy None = False"
| "truthy (Some JNull) = False"
| "truthy (Some (JBool b)) = b"
| "truthy (Some (JNum n)) = (n \<noteq> 0)"
| "truthy (Some (JStr s)) = (s \<noteq> [])"
| "truthy (Some (JArr xs)) = True"
| "truthy (Some (JObj kvs)) = True"

text \<open>\<open>x || d\<close>: the left operand when it is truthy, the right one otherwise.\<close>

definition orElse :: "jsval option \<Rightarrow> jsval \<Rightarrow> jsval" where
  "orElse x d = (case x of None \<Rightarrow> d | Some v \<Rightarrow> if truthy (Some v) then v else d)"

text \<open>
  A \<open>features\<close>, \<open>tags\<close> or \<open>removePublicIds\<close> value of a request: one string, or a list of
  strings (\<open>Array.isArray\<close>).
\<close>

datatype listInput = Text string | Items "string list"

text \<open>A \<open>specifications\<close> value: JSON text, or a mapping.\<close>

datatype specInput = SpecText string | SpecMap "(string \<times> string) list"

text \<open>
  The result of \<open>Number(s)\<close> for a string: a number, an infinity, or \<open>NaN\<close>.
\<close>

datatype bound = Num real | PlusInfinity | MinusInfinity | NotANumber

section \<open>Responses\<close>

text \<open>
  Every early \<open>return res.status(...)\<close> of a controller and every \<open>catch\<close> branch is one
  constructor; a controller returns \<open>Inl\<close> of it, or \<open>Inr\<close> of the success payload.

  \<^item> \<open>ValidationFailed\<close>: 400, Validation failed.
  \<^item> \<open>MissingFields\<close>: 400, Please provide all required fields.
  \<^item> \<open>MissingImages\<close>: 400, At least one image is required.
  \<^item> \<open>InvalidId\<close>: 400, Invalid user ID or Invalid product ID.
  \<^item> \<open>UserNotFound\<close>, \<open>ProductNotFound\<close>, \<open>BookingNotFound\<close>: 404.
  \<^item> \<open>ProductNotAvailable\<close>: 400, Product is not available for booking.
  \<^item> \<open>NotAuthorized\<close>: 403, Not authorized to cancel this booking.
  \<^item> \<open>AdminRequired\<close>: 403, Not authorized. Admin access required.
  \<^item> \<open>AlreadyCancelled\<close>: 400, Booking is already cancelled.
  \<^item> \<open>CannotCancelCompleted\<close>: 400, Cannot cancel a completed booking.
  \<^item> \<open>AlreadyCompleted\<close>: 400, Booking is already marked as completed.
  \<^item> \<open>CannotCompleteCancelled\<close>: 400, Cannot complete a cancelled booking.
  \<^item> \<open>SelfDemotion\<close>: 400, Cannot demote yourself from admin role.
  \<^item> \<open>SelfDelete\<close>: 400, Cannot delete your own account.
  \<^item> \<open>EmailInUse\<close>, \<open>PhoneInUse\<close>: 400, Email already in use, Phone number already in
    use (the Conflict of the specification).
  \<^item> \<open>ServerError\<close>: 500, the \<open>catch\<close> branch of a controller.
\<close>

datatype error =
    ValidationFailed
  | MissingFields
  | MissingImages
  | InvalidId
  | UserNotFound
  | ProductNotFound
  | BookingNotFound
  | ProductNotAvailable
  | NotAuthorized
  | AdminRequired
  | AlreadyCancelled
  | CannotCancelCompleted
  | AlreadyCompleted
  | CannotCompleteCancelled
  | SelfDemotion
  | SelfDelete
  | EmailInUse
  | PhoneInUse
  | ServerError

section \<open>Documents\<close>

text \<open>
  Modelled from the spec: the schemas of the three models (User, Product, Booking) are
  not among the sources. The records hold the paths the controllers read and write, at
  the types of the attributes in the data model of the specification. \<open>u_id\<close>, \<open>p_id\<close>
  and \<open>b_id\<close> are \<open>_id\<close> as the string the store prints; \<open>u_name\<close> and \<open>p_name\<close> are
  \<open>name\<close>, \<open>u_isActive\<close> and \<open>p_isActive\<close> are \<open>isActive\<close>, \<open>ptype\<close> is \<open>type\<close>, \<open>u_createdAt\<close>
  is \<open>createdAt\<close>. A collection is the list of its documents in insertion order. The
  validation and the casting the schemas do on a write are not modelled: the store
  takes a document as the controller hands it over.
\<close>

record user =
  u_id :: string
  u_name :: string
  email :: string
  phone :: string
  password :: string
  role :: string
  u_isActive :: bool
  lastLogin :: "nat option"
  u_createdAt :: nat

record product =
  p_id :: string
  p_name :: "string option"
  description :: "string option"
  category :: "string option"
  condition :: "string option"
  ptype :: "string option"
  availability :: string
  features :: "string list"
  images :: "string list"
  imagePublicIds :: "string list"
  price :: "real option"
  originalPrice :: "real option"
  discount :: "real option"
  stock :: "real option"
  specifications :: specInput
  tags :: "string list"
  p_isActive :: bool
  createdBy :: string

text \<open>
  A booking holds the values \<open>createBooking\<close> hands to \<open>Booking.create\<close>, as it hands
  them over, the identifier the store gives the document, and the cancellation reason.
  \<open>orderDate\<close> is the path \<open>getBookings\<close> sorts by. No controller writes it: what it
  holds is what the Booking schema puts there when the document is created, and
  \<open>None\<close> when the schema puts nothing there.
\<close>

record booking =
  b_id :: string
  productId :: string
  productName :: "jsval option"
  productImage :: "jsval option"
  productCategory :: "jsval option"
  userId :: string
  customerName :: "jsval option"
  customerPhone :: "jsval option"
  customerAddress :: "jsval option"
  quantity :: "jsval option"
  bookingDate :: "jsval option"
  actualPrice :: jsval
  strikePrice :: jsval
  sellingPrice :: jsval
  totalAmount :: jsval
  discountPercentage :: jsval
  status :: string
  cancellationReason :: "jsval option"
  orderDate :: "nat option"

section \<open>The runtime and the document store\<close>

text \<open>
  What the controllers call and do not define: functions of the JavaScript runtime and
  the behaviour of the document store. They are parameters of the model, so a property
  proved for every \<open>env\<close> holds whatever these functions do.

  \<^item> \<open>castId\<close>: the store's cast of a request string to an identifier, as the string the
    store prints; \<open>None\<close> when the string is no identifier (\<open>CastError\<close>, and
    \<open>isValidObjectId\<close> false). Two spellings of one identifier have the same cast.
  \<^item> \<open>parseInt\<close>: JavaScript's \<open>parseInt\<close> on a string; the value of the number it
    returns, \<open>None\<close> when that is \<open>NaN\<close> or infinite.
  \<^item> \<open>toNumber\<close>: JavaScript's \<open>Number\<close> on a string.
  \<^item> \<open>trim\<close>, \<open>toLowerCase\<close>: the methods of JavaScript strings.
  \<^item> \<open>parseJSON\<close>: \<open>JSON.parse\<close> of a \<open>specifications\<close> text; \<open>None\<close> when it throws.
  \<^item> \<open>textSearch\<close>: the store's \<open>$text\<close> search of a product.
  \<^item> \<open>regexOk\<close>, \<open>regexMatch\<close>: whether the store takes a string as a regular
    expression, and its case-insensitive \<open>$regex\<close> search of a pattern in a string.
  \<^item> \<open>sortBy\<close>: the store's ordering of products for a sort specification.
  \<^item> \<open>accepts\<close>: whether the store takes a sort specification, a projection and
    a text search; it throws when it does not.
\<close>

record env =
  castId :: "string \<Rightarrow> string option"
  parseInt :: "string \<Rightarrow> int option"
  toNumber :: "string \<Rightarrow> bound"
  trim :: "string \<Rightarrow> string"
  toLowerCase :: "string \<Rightarrow> string"
  parseJSON :: "string \<Rightarrow> (string \<times> string) list option"
  textSearch :: "string \<Rightarrow> product \<Rightarrow> bool"
  regexOk :: "string \<Rightarrow> bool"
  regexMatch :: "string \<Rightarrow> string \<Rightarrow> bool"
  sortBy :: "string \<Rightarrow> product list \<Rightarrow> product list"
  accepts :: "string \<Rightarrow> string option \<Rightarrow> string option \<Rightarrow> bool"

text \<open>
  \<open>Model.findById(id)\<close>: the store casts the string; a string that is no identifier makes
  the call throw a \<open>CastError\<close> (\<open>None\<close>); otherwise the result is the document with
  that identifier, or \<open>null\<close>.
\<close>

definition findById :: "env \<Rightarrow> ('a \<Rightarrow> string) \<Rightarrow> 'a list \<Rightarrow> string \<Rightarrow> 'a option option" where
  "findById E ident docs i =
     (case castId E i of
        None \<Rightarrow> None
      | Some c \<Rightarrow> Some (find (\<lambda>d. ident d = c) docs))"

text \<open>\<open>doc.save()\<close>: the stored document with the identifier of \<open>d\<close> becomes \<open>d\<close>.\<close>

definition save :: "('a \<Rightarrow> string) \<Rightarrow> 'a \<Rightarrow> 'a list \<Rightarrow> 'a list" where
  "save ident d docs = map (\<lambda>x. if ident x = ident d then d else x) docs"

text \<open>
  \<open>.sort({ field: -1 })\<close>: descending by the field; a document without the field
  (\<open>None\<close>) sorts below every value, and documents with equal keys keep the order the
  store has them in.
\<close>

fun insertDesc :: "('a \<Rightarrow> 'k::linorder option) \<Rightarrow> 'a \<Rightarrow> 'a list \<Rightarrow> 'a list" where
  "insertDesc k x [] = [x]"
| "insertDesc k x (y # ys) = (if k y \<le> k x then x # y # ys else y # insertDesc k x ys)"

definition sortDesc :: "('a \<Rightarrow> 'k::linorder option) \<Rightarrow> 'a list \<Rightarrow> 'a list" where
  "sortDesc k docs = foldr (insertDesc k) docs []"

section \<open>Bookings controller\<close>

text \<open>
  \<open>Product.findById(productId)\<close> with the request's value: only a string can be an
  identifier.
\<close>

definition findProduct :: "env \<Rightarrow> product list \<Rightarrow> jsval option \<Rightarrow> product option option" where
  "findProduct E products v =
     (case v of Some (JStr i) \<Rightarrow> findById E p_id products i | _ \<Rightarrow> None)"

text \<open>
  \<open>createBooking\<close>. \<open>actor\<close> is \<open>req.user\<close>, \<open>newId\<close> the identifier the store gives the
  new document, and \<open>stamp\<close> what the Booking schema puts into \<open>orderDate\<close> (the
  controller passes no \<open>orderDate\<close>). A \<open>CastError\<close> of \<open>findById\<close> lands in the \<open>catch\<close>
  branch (500).
\<close>

definition createBooking ::
  "env \<Rightarrow> user \<Rightarrow> string \<Rightarrow> nat option \<Rightarrow> body \<Rightarrow> product list \<Rightarrow> booking list
     \<Rightarrow> (error + booking) \<times> booking list" where
  "createBooking E actor newId stamp b products bookings =
     (if \<not> truthy (b ''productId'') \<or> \<not> truthy (b ''customerName'')
         \<or> \<not> truthy (b ''customerPhone'') \<or> \<not> truthy (b ''customerAddress'')
         \<or> \<not> truthy (b ''quantity'') \<or> \<not> truthy (b ''bookingDate'')
      then (Inl MissingFields, bookings)
      else case findProduct E products (b ''productId'') of
        None \<Rightarrow> (Inl ServerError, bookings)
      | Some None \<Rightarrow> (Inl ProductNotFound, bookings)
      | Some (Some p) \<Rightarrow>
          if availability p \<noteq> ''Available'' then (Inl ProductNotAvailable, bookings)
          else
            let doc = \<lparr> b_id = newId,
                        productId = p_id p,
                        productName = b ''productName'',
                        productImage = b ''productImage'',
                        productCategory = b ''productCategory'',
                        userId = u_id actor,
                        customerName = b ''customerName'',
                        customerPhone = b ''customerPhone'',
                        customerAddress = b ''customerAddress'',
                        quantity = b ''quantity'',
                        bookingDate = b ''bookingDate'',
                        actualPrice = orElse (b ''actualPrice'') (JNum 0),
                        strikePrice = orElse (b ''strikePrice'') (JNum 0),
                        sellingPrice = orElse (b ''sellingPrice'') (JNum 0),
                        totalAmount = orElse (b ''totalAmount'') (JNum 0),
                        discountPercentage = orElse (b ''discountPercentage'') (JNum 0),
                        status = ''confirmed'',
                        cancellationReason = None,
                        orderDate = stamp \<rparr>
            in (Inr doc, bookings @ [doc]))"

text \<open>
  Modelled from the spec: \<open>booking.updateStatus\<close> is a method of the Booking model, which
  is not among the sources. The specification's state machine says what it does: the
  booking moves to the given status.
\<close>

definition updateStatus :: "string \<Rightarrow> booking \<Rightarrow> booking" where
  "updateStatus s b = b\<lparr>status := s\<rparr>"

definition cancelBooking ::
  "env \<Rightarrow> user \<Rightarrow> string \<Rightarrow> body \<Rightarrow> booking list \<Rightarrow> (error + booking) \<times> booking list" where
  "cancelBooking E actor i b bookings =
     (case findById E b_id bookings i of
        None \<Rightarrow> (Inl ServerError, bookings)
      | Some None \<Rightarrow> (Inl BookingNotFound, bookings)
      | Some (Some bk) \<Rightarrow>
          let isAdmin = (role actor = ''admin'');
              isOwner = (userId bk = u_id actor)
          in if \<not> isAdmin \<and> \<not> isOwner then (Inl NotAuthorized, bookings)
             else if status bk = ''cancelled'' then (Inl AlreadyCancelled, bookings)
             else if status bk = ''completed'' then (Inl CannotCancelCompleted, bookings)
             else
               let bk' = (updateStatus ''cancelled'' bk)
                     \<lparr>cancellationReason :=
                        Some (orElse (b ''reason'')
                          (if isAdmin then JStr ''Cancelled by Admin''
                           else JStr ''Cancelled by customer''))\<rparr>
               in (Inr bk', save b_id bk' bookings))"

definition completeBooking ::
  "env \<Rightarrow> user \<Rightarrow> string \<Rightarrow> booking list \<Rightarrow> (error + booking) \<times> booking list" where
  "completeBooking E actor i bookings =
     (if role actor \<noteq> ''admin'' then (Inl AdminRequired, bookings)
      else case findById E b_id bookings i of
        None \<Rightarrow> (Inl ServerError, bookings)
      | Some None \<Rightarrow> (Inl BookingNotFound, bookings)
      | Some (Some bk) \<Rightarrow>
          if status bk = ''completed'' then (Inl AlreadyCompleted, bookings)
          else if status bk = ''cancelled'' then (Inl CannotCompleteCancelled, bookings)
          else
            let bk' = updateStatus ''completed'' bk
            in (Inr bk', save b_id bk' bookings))"


section \<open>Pagination\<close>

text \<open>
  A query parameter with a numeric default, \<open>const { page = 1 } = req.query\<close> followed
  by \<open>parseInt(page)\<close>: the default when the parameter is absent.
\<close>

definition parseIntOr :: "env \<Rightarrow> int \<Rightarrow> string option \<Rightarrow> int option" where
  "parseIntOr E d q = (case q of None \<Rightarrow> Some d | Some s \<Rightarrow> parseInt E s)"

text \<open>
  \<open>.skip(s).limit(l)\<close> on a cursor of the store: a negative skip is refused (\<open>None\<close>), a
  limit of 0 is no limit, and a negative limit counts as its absolute value.
\<close>

definition skipLimit :: "int \<Rightarrow> int \<Rightarrow> 'a list \<Rightarrow> 'a list option" where
  "skipLimit s l docs =
     (if s < 0 then None
      else Some (if l = 0 then drop (nat s) docs else take (nat \<bar>l\<bar>) (drop (nat s) docs)))"

text \<open>
  \<open>Math.ceil(total / limit)\<close> for an integer \<open>limit\<close> and a count \<open>total\<close>, which is not
  negative: division by 0 gives \<open>Infinity\<close>, or \<open>NaN\<close> for \<open>0 / 0\<close>. The arithmetic of the
  listings is the one of the integers; JavaScript's numbers agree with it as long as
  the values stay within \<open>2^53\<close>.
\<close>

datatype jsnum = Finite int | Infinity | NaN

definition ceilDiv :: "int \<Rightarrow> int \<Rightarrow> jsnum" where
  "ceilDiv n l =
     (if l = 0 then (if n = 0 then NaN else Infinity) else Finite (- ((- n) div l)))"

text \<open>\<open>page < totalPages\<close> for an integer \<open>page\<close>.\<close>

fun lessThan :: "int \<Rightarrow> jsnum \<Rightarrow> bool" where
  "lessThan p (Finite n) = (p < n)"
| "lessThan p Infinity = True"
| "lessThan p NaN = False"

record pagination =
  currentPage :: int
  totalPages :: jsnum
  totalItems :: int
  hasNextPage :: bool
  hasPrevPage :: bool

section \<open>Users controller\<close>

text \<open>
  The body of an update request, at the types of the user's paths: a property is absent
  (\<open>None\<close>) or holds a value of the path's type. The store writes the paths of the schema
  and drops every other property, so these are the properties that matter.
\<close>

record userBody =
  b_name :: "string option"
  b_email :: "string option"
  b_phone :: "string option"
  b_role :: "string option"
  b_isActive :: "bool option"
  b_password :: "string option"
  b_lastLogin :: "nat option"

text \<open>Truthiness of a property that is a string when present.\<close>

definition given :: "string option \<Rightarrow> bool" where
  "given x = (case x of None \<Rightarrow> False | Some s \<Rightarrow> s \<noteq> [])"

text \<open>
  The filter \<open>{ _id: { $ne: id }, email, phone }\<close> of \<open>updateUser\<close>, where \<open>email\<close> and
  \<open>phone\<close> are conditions only when the body gives them: a document matches when it
  meets every condition present. The store casts \<open>id\<close>.
\<close>

definition conflictFilter :: "env \<Rightarrow> string \<Rightarrow> userBody \<Rightarrow> user \<Rightarrow> bool" where
  "conflictFilter E i b x =
     (castId E i \<noteq> Some (u_id x)
      \<and> (if given (b_email b) then Some (email x) = b_email b else True)
      \<and> (if given (b_phone b) then Some (phone x) = b_phone b else True))"

text \<open>\<open>$set\<close> of every property the body gives.\<close>

definition applyUpdate :: "userBody \<Rightarrow> user \<Rightarrow> user" where
  "applyUpdate b u =
     u\<lparr> u_name := (case b_name b of None \<Rightarrow> u_name u | Some v \<Rightarrow> v),
        email := (case b_email b of None \<Rightarrow> email u | Some v \<Rightarrow> v),
        phone := (case b_phone b of None \<Rightarrow> phone u | Some v \<Rightarrow> v),
        role := (case b_role b of None \<Rightarrow> role u | Some v \<Rightarrow> v),
        u_isActive := (case b_isActive b of None \<Rightarrow> u_isActive u | Some v \<Rightarrow> v),
        password := (case b_password b of None \<Rightarrow> password u | Some v \<Rightarrow> v),
        lastLogin := (case b_lastLogin b of None \<Rightarrow> lastLogin u | Some v \<Rightarrow> Some v) \<rparr>"

text \<open>
  Modelled from the spec: the User schema is not among the sources. The data model of
  the specification makes e-mail and phone unique among users; the store's unique
  indexes refuse a write that would give two users the same value, and the refusal is an
  exception in the controller.
\<close>

definition uniqueOk :: "user \<Rightarrow> user list \<Rightarrow> bool" where
  "uniqueOk u users =
     list_all (\<lambda>x. u_id x = u_id u \<or> (email x \<noteq> email u \<and> phone x \<noteq> phone u)) users"

text \<open>
  \<open>User.findByIdAndUpdate(id, updateData, { new: true })\<close>: \<open>None\<close> when the store throws,
  otherwise the updated document (or \<open>null\<close>) and the collection.
\<close>

definition findByIdAndUpdate ::
  "env \<Rightarrow> string \<Rightarrow> userBody \<Rightarrow> user list \<Rightarrow> (user option \<times> user list) option" where
  "findByIdAndUpdate E i b users =
     (case findById E u_id users i of
        None \<Rightarrow> None
      | Some None \<Rightarrow> Some (None, users)
      | Some (Some u) \<Rightarrow>
          let u' = applyUpdate b u
          in if uniqueOk u' users then Some (Some u', save u_id u' users) else None)"

text \<open>
  \<open>updateUser\<close>. \<open>errorsEmpty\<close> is the outcome of the route's validators
  (\<open>validationResult(req).isEmpty()\<close>), \<open>actor\<close> is \<open>req.user\<close>, \<open>i\<close> is \<open>req.params.id\<close>.
  The guard compares \<open>req.user._id.toString()\<close> with the request string itself. The
  response carries the updated document without its password.
\<close>

definition updateUser ::
  "env \<Rightarrow> bool \<Rightarrow> user \<Rightarrow> string \<Rightarrow> userBody \<Rightarrow> user list
     \<Rightarrow> (error + user option) \<times> user list" where
  "updateUser E errorsEmpty actor i b users =
     (if \<not> errorsEmpty then (Inl ValidationFailed, users)
      else case findById E u_id users i of
        None \<Rightarrow> (Inl InvalidId, users)
      | Some None \<Rightarrow> (Inl UserNotFound, users)
      | Some (Some u) \<Rightarrow>
          if u_id actor = i \<and> b_role b = Some ''user'' then (Inl SelfDemotion, users)
          else
            (case (if given (b_email b) \<or> given (b_phone b)
                   then find (conflictFilter E i b) users else None) of
               Some existingUser \<Rightarrow>
                 (Inl (if Some (email existingUser) = b_email b then EmailInUse else PhoneInUse),
                  users)
             | None \<Rightarrow>
                 (case findByIdAndUpdate E i b users of
                    None \<Rightarrow> (Inl ServerError, users)
                  | Some (updatedUser, users') \<Rightarrow> (Inr updatedUser, users'))))"

text \<open>\<open>deleteUser\<close>. The guard compares as the one of \<open>updateUser\<close> does.\<close>

definition deleteUser ::
  "env \<Rightarrow> user \<Rightarrow> string \<Rightarrow> user list \<Rightarrow> (error + unit) \<times> user list" where
  "deleteUser E actor i users =
     (case findById E u_id users i of
        None \<Rightarrow> (Inl InvalidId, users)
      | Some None \<Rightarrow> (Inl UserNotFound, users)
      | Some (Some u) \<Rightarrow>
          if u_id actor = i then (Inl SelfDelete, users)
          else (Inr (), save u_id (u\<lparr>u_isActive := False\<rparr>) users))"

record userQuery =
  q_page :: "string option"
  q_limit :: "string option"
  q_role :: "string option"
  q_search :: "string option"

text \<open>The filter of \<open>getUsers\<close>.\<close>

definition userFilter :: "env \<Rightarrow> userQuery \<Rightarrow> user \<Rightarrow> bool" where
  "userFilter E q u =
     ((if given (q_role q) then Some (role u) = q_role q else True)
      \<and> (case q_search q of
           None \<Rightarrow> True
         | Some s \<Rightarrow>
             if s = [] then True
             else regexMatch E s (u_name u) \<or> regexMatch E s (email u)
                  \<or> regexMatch E s (phone u)))"

record userListing =
  users_of :: "user list"
  users_pagination :: pagination

text \<open>
  \<open>getUsers\<close>. The listed documents are returned without their password. The store
  throws for a page or a limit that is not a number and for a search text it does not
  take as a regular expression.
\<close>

definition getUsers :: "env \<Rightarrow> bool \<Rightarrow> userQuery \<Rightarrow> user list \<Rightarrow> error + userListing" where
  "getUsers E errorsEmpty q users =
     (if \<not> errorsEmpty then Inl ValidationFailed
      else case (parseIntOr E 1 (q_page q), parseIntOr E 10 (q_limit q)) of
        (Some page, Some limit) \<Rightarrow>
          let matched = filter (userFilter E q) users;
              skip = (page - 1) * limit
          in if (case q_search q of None \<Rightarrow> False | Some s \<Rightarrow> s \<noteq> [] \<and> \<not> regexOk E s)
             then Inl ServerError
             else
               (case skipLimit skip limit (sortDesc (\<lambda>u. Some (u_createdAt u)) matched) of
                  None \<Rightarrow> Inl ServerError
                | Some found \<Rightarrow>
                    let totalUsers = int (length matched);
                        pages = ceilDiv totalUsers limit
                    in Inr \<lparr> users_of = found,
                             users_pagination =
                               \<lparr> currentPage = page,
                                 totalPages = pages,
                                 totalItems = totalUsers,
                                 hasNextPage = lessThan page pages,
                                 hasPrevPage = (page > 1) \<rparr> \<rparr>)
      | _ \<Rightarrow> Inl ServerError)"

section \<open>Strings\<close>

text \<open>\<open>s.split(',')\<close>: the empty string splits into one empty piece.\<close>

fun split :: "char \<Rightarrow> string \<Rightarrow> string list" where
  "split sep [] = [[]]"
| "split sep (c # cs) =
     (if c = sep then [] # split sep cs
      else case split sep cs of
             [] \<Rightarrow> [[c]]
           | w # ws \<Rightarrow> (c # w) # ws)"

text \<open>\<open>xs.join(sep)\<close>.\<close>

fun join :: "string \<Rightarrow> string list \<Rightarrow> string" where
  "join sep [] = []"
| "join sep [x] = x"
| "join sep (x # y # ys) = x @ sep @ join sep (y # ys)"

section \<open>Products controller\<close>

record productQuery =
  pq_page :: "string option"
  pq_limit :: "string option"
  pq_sort :: "string option"
  pq_fields :: "string option"
  pq_category :: "string option"
  pq_condition :: "string option"
  pq_type :: "string option"
  pq_availability :: "string option"
  pq_minPrice :: "string option"
  pq_maxPrice :: "string option"
  pq_search :: "string option"
  pq_isActive :: "jsval option"
  pq_tags :: "listInput option"

text \<open>
  The filter object \<open>buildFilter\<close> returns. A key that is not set is \<open>None\<close>. The bounds
  of \<open>price\<close> hold the result of \<open>Number(...)\<close>.
\<close>

record productFilter =
  f_isActive :: bool
  f_category :: "string option"
  f_condition :: "string option"
  f_type :: "string option"
  f_availability :: "string option"
  f_price_gte :: "bound option"
  f_price_lte :: "bound option"
  f_text :: "string option"
  f_tags_in :: "string list option"

definition tagsOfQuery :: "env \<Rightarrow> listInput \<Rightarrow> string list" where
  "tagsOfQuery E t =
     (case t of
        Items xs \<Rightarrow> xs
      | Text s \<Rightarrow> map (\<lambda>w. toLowerCase E (trim E w)) (split CHR '','' s))"

text \<open>Truthiness of a \<open>features\<close> or \<open>tags\<close> value: an array is truthy, also when empty.\<close>

definition givenList :: "listInput option \<Rightarrow> bool" where
  "givenList t = (case t of None \<Rightarrow> False | Some (Text s) \<Rightarrow> s \<noteq> [] | Some (Items xs) \<Rightarrow> True)"

text \<open>\<open>buildFilter\<close>.\<close>

definition buildFilter :: "env \<Rightarrow> productQuery \<Rightarrow> productFilter" where
  "buildFilter E q =
     \<lparr> f_isActive =
         (case pq_isActive q of
            None \<Rightarrow> True
          | Some v \<Rightarrow> v = JStr ''true'' \<or> v = JBool True),
       f_category = (if given (pq_category q) then pq_category q else None),
       f_condition = (if given (pq_condition q) then pq_condition q else None),
       f_type = (if given (pq_type q) then pq_type q else None),
       f_availability = (if given (pq_availability q) then pq_availability q else None),
       f_price_gte =
         (if given (pq_minPrice q) then map_option (toNumber E) (pq_minPrice q) else None),
       f_price_lte =
         (if given (pq_maxPrice q) then map_option (toNumber E) (pq_maxPrice q) else None),
       f_text = (if given (pq_search q) then pq_search q else None),
       f_tags_in =
         (if givenList (pq_tags q) then map_option (tagsOfQuery E) (pq_tags q) else None) \<rparr>"

text \<open>
  Modelled from the spec: the Product schema is not among the sources; \<open>price\<close> is
  numeric in the data model of the specification, so the store casts the bounds of
  \<open>price\<close> to numbers and refuses a filter with a bound that is \<open>NaN\<close> (\<open>CastError\<close>).
\<close>

definition castable :: "productFilter \<Rightarrow> bool" where
  "castable f = (f_price_gte f \<noteq> Some NotANumber \<and> f_price_lte f \<noteq> Some NotANumber)"

text \<open>The store's evaluation of the filter on one product.\<close>

definition eqCond :: "string option \<Rightarrow> string option \<Rightarrow> bool" where
  "eqCond c v = (case c of None \<Rightarrow> True | Some x \<Rightarrow> v = Some x)"

definition gteCond :: "bound option \<Rightarrow> real option \<Rightarrow> bool" where
  "gteCond c v =
     (case c of
        None \<Rightarrow> True
      | Some (Num lo) \<Rightarrow> (case v of None \<Rightarrow> False | Some x \<Rightarrow> lo \<le> x)
      | Some MinusInfinity \<Rightarrow> v \<noteq> None
      | Some PlusInfinity \<Rightarrow> False
      | Some NotANumber \<Rightarrow> False)"

definition lteCond :: "bound option \<Rightarrow> real option \<Rightarrow> bool" where
  "lteCond c v =
     (case c of
        None \<Rightarrow> True
      | Some (Num hi) \<Rightarrow> (case v of None \<Rightarrow> False | Some x \<Rightarrow> x \<le> hi)
      | Some PlusInfinity \<Rightarrow> v \<noteq> None
      | Some MinusInfinity \<Rightarrow> False
      | Some NotANumber \<Rightarrow> False)"

definition matches :: "env \<Rightarrow> productFilter \<Rightarrow> product \<Rightarrow> bool" where
  "matches E f p =
     (p_isActive p = f_isActive f
      \<and> eqCond (f_category f) (category p)
      \<and> eqCond (f_condition f) (condition p)
      \<and> eqCond (f_type f) (ptype p)
      \<and> eqCond (f_availability f) (Some (availability p))
      \<and> gteCond (f_price_gte f) (price p)
      \<and> lteCond (f_price_lte f) (price p)
      \<and> (case f_text f of None \<Rightarrow> True | Some s \<Rightarrow> textSearch E s p)
      \<and> (case f_tags_in f of None \<Rightarrow> True | Some ts \<Rightarrow> list_ex (\<lambda>t. t \<in> set ts) (tags p)))"

record productListing =
  products_of :: "product list"
  projection :: "string option"
  products_pagination :: pagination

text \<open>
  \<open>listProducts\<close>. \<open>projection\<close> is the argument of \<open>select\<close>: the fields each listed
  document is cut down to, all of them when it is \<open>None\<close>. The store throws for a page
  or a limit that is not a number, for a filter it cannot cast, and for a sort
  specification, a projection or a text search it does not take.
\<close>

definition listProducts :: "env \<Rightarrow> productQuery \<Rightarrow> product list \<Rightarrow> error + productListing" where
  "listProducts E q products =
     (case (parseIntOr E 1 (pq_page q), parseIntOr E 12 (pq_limit q)) of
        (Some page, Some limit) \<Rightarrow>
          let sort = (case pq_sort q of None \<Rightarrow> ''-createdAt'' | Some s \<Rightarrow> s);
              filt = buildFilter E q;
              select = (if given (pq_fields q)
                        then map_option (\<lambda>fs. join '' '' (split CHR '','' fs)) (pq_fields q)
                        else None);
              skip = (page - 1) * limit;
              matched = filter (matches E filt) products
          in if \<not> castable filt \<or> \<not> accepts E sort select (f_text filt) then Inl ServerError
             else
               (case skipLimit skip limit (sortBy E sort matched) of
                  None \<Rightarrow> Inl ServerError
                | Some found \<Rightarrow>
                    let totalCount = int (length matched)
                    in Inr \<lparr> products_of = found,
                             projection = select,
                             products_pagination =
                               \<lparr> currentPage = page,
                                 totalPages = ceilDiv totalCount limit,
                                 totalItems = totalCount,
                                 hasNextPage = (page * limit < totalCount),
                                 hasPrevPage = (page > 1) \<rparr> \<rparr>)
      | _ \<Rightarrow> Inl ServerError)"

text \<open>An uploaded file as the upload middleware describes it.\<close>

record upload =
  path :: "string option"
  secure_url :: "string option"
  filename :: "string option"
  public_id :: "string option"

text \<open>\<open>files.map((f) => a(f) || b(f)).filter(Boolean)\<close>.\<close>

definition firstGiven :: "string option \<Rightarrow> string option \<Rightarrow> string option" where
  "firstGiven a b = (if given a then a else b)"

definition pick :: "(upload \<Rightarrow> string option) \<Rightarrow> (upload \<Rightarrow> string option) \<Rightarrow> upload list \<Rightarrow> string list" where
  "pick a b files =
     List.map_filter (\<lambda>f. if given (firstGiven (a f) (b f)) then firstGiven (a f) (b f) else None) files"

record productBody =
  pb_name :: "string option"
  pb_description :: "string option"
  pb_category :: "string option"
  pb_condition :: "string option"
  pb_type :: "string option"
  pb_availability :: "string option"
  pb_features :: "listInput option"
  pb_price :: "real option"
  pb_originalPrice :: "real option"
  pb_discount :: "real option"
  pb_stock :: "real option"
  pb_specifications :: "specInput option"
  pb_tags :: "listInput option"
  pb_isActive :: "bool option"
  pb_removePublicIds :: "listInput option"

text \<open>
  The \<open>features\<close> and \<open>tags\<close> expressions of \<open>createProduct\<close>; an absent property takes the
  default \<open>[]\<close> of the destructuring.
\<close>

definition featuresOfCreate :: "env \<Rightarrow> listInput option \<Rightarrow> string list" where
  "featuresOfCreate E t =
     (case t of
        None \<Rightarrow> []
      | Some (Items xs) \<Rightarrow> xs
      | Some (Text s) \<Rightarrow> filter (\<lambda>w. w \<noteq> []) (map (trim E) (split CHR '','' s)))"

definition tagsOfCreate :: "env \<Rightarrow> listInput option \<Rightarrow> string list" where
  "tagsOfCreate E t =
     (case t of
        None \<Rightarrow> []
      | Some (Items xs) \<Rightarrow> xs
      | Some (Text s) \<Rightarrow>
          filter (\<lambda>w. w \<noteq> []) (map (\<lambda>w. toLowerCase E (trim E w)) (split CHR '','' s)))"

text \<open>
  \<open>createProduct\<close>. \<open>newId\<close> is the identifier the store gives the document.

  Modelled from the spec: the Product schema is not among the sources; a product that
  is created without \<open>isActive\<close> is active, as the data model of the specification has
  it (default true).
\<close>

definition createProduct ::
  "env \<Rightarrow> user \<Rightarrow> string \<Rightarrow> productBody \<Rightarrow> upload list \<Rightarrow> product list
     \<Rightarrow> (error + product) \<times> product list" where
  "createProduct E actor newId b files products =
     (if files = [] then (Inl MissingImages, products)
      else
        case (case pb_specifications b of
                None \<Rightarrow> Some (SpecMap [])
              | Some (SpecText s) \<Rightarrow> map_option SpecMap (parseJSON E s)
              | Some (SpecMap m) \<Rightarrow> Some (SpecMap m)) of
          None \<Rightarrow> (Inl ServerError, products)
        | Some spec \<Rightarrow>
            let doc = \<lparr> p_id = newId,
                        p_name = pb_name b,
                        description = pb_description b,
                        category = pb_category b,
                        condition = pb_condition b,
                        ptype = pb_type b,
                        availability =
                          (case pb_availability b of
                             None \<Rightarrow> ''Available''
                           | Some a \<Rightarrow> if a = [] then ''Available'' else a),
                        features = featuresOfCreate E (pb_features b),
                        images = pick path secure_url files,
                        imagePublicIds = pick filename public_id files,
                        price = pb_price b,
                        originalPrice = pb_originalPrice b,
                        discount = pb_discount b,
                        stock = pb_stock b,
                        specifications = spec,
                        tags = tagsOfCreate E (pb_tags b),
                        p_isActive = True,
                        createdBy = u_id actor \<rparr>
            in (Inr doc, products @ [doc]))"

text \<open>The \<open>features\<close> and \<open>tags\<close> of an update body after the parsing of strings.\<close>

definition featuresOfUpdate :: "env \<Rightarrow> listInput \<Rightarrow> string list" where
  "featuresOfUpdate E t =
     (case t of
        Items xs \<Rightarrow> xs
      | Text s \<Rightarrow> filter (\<lambda>w. w \<noteq> []) (map (trim E) (split CHR '','' s)))"

definition tagsOfUpdate :: "env \<Rightarrow> listInput \<Rightarrow> string list" where
  "tagsOfUpdate E t =
     (case t of
        Items xs \<Rightarrow> xs
      | Text s \<Rightarrow>
          filter (\<lambda>w. w \<noteq> []) (map (\<lambda>w. toLowerCase E (trim E w)) (split CHR '','' s)))"

definition removeIdsOf :: "env \<Rightarrow> listInput \<Rightarrow> string list" where
  "removeIdsOf E t = (case t of Items xs \<Rightarrow> xs | Text s \<Rightarrow> map (trim E) (split CHR '','' s))"

text \<open>
  \<open>updateProduct\<close>. The calls of \<open>deleteImage\<close> act on the image storage only and their
  failures are ignored; they are left out.
\<close>

definition updateProduct ::
  "env \<Rightarrow> string \<Rightarrow> productBody \<Rightarrow> upload list \<Rightarrow> product list
     \<Rightarrow> (error + product) \<times> product list" where
  "updateProduct E i b files products =
     (case findById E p_id products i of
        None \<Rightarrow> (Inl InvalidId, products)
      | Some None \<Rightarrow> (Inl ProductNotFound, products)
      | Some (Some p) \<Rightarrow>
          let b_features = map_option (featuresOfUpdate E) (pb_features b);
              b_tags = map_option (tagsOfUpdate E) (pb_tags b);
              b_spec = (case pb_specifications b of
                          Some (SpecText s) \<Rightarrow>
                            (case parseJSON E s of
                               None \<Rightarrow> Some (SpecText s)
                             | Some m \<Rightarrow> Some (SpecMap m))
                        | other \<Rightarrow> other);
              p1 = (if givenList (pb_removePublicIds b)
                    then p\<lparr>imagePublicIds :=
                           filter (\<lambda>pid. pid \<notin> set (case pb_removePublicIds b of
                                                       None \<Rightarrow> []
                                                     | Some r \<Rightarrow> removeIdsOf E r))
                             (imagePublicIds p)\<rparr>
                    else p);
              p2 = (if files \<noteq> []
                    then p1\<lparr>images := images p1 @ pick path secure_url files,
                            imagePublicIds := imagePublicIds p1 @ pick filename public_id files\<rparr>
                    else p1);
              p3 = p2\<lparr> p_name := (case pb_name b of None \<Rightarrow> p_name p2 | v \<Rightarrow> v),
                       description := (case pb_description b of None \<Rightarrow> description p2 | v \<Rightarrow> v),
                       category := (case pb_category b of None \<Rightarrow> category p2 | v \<Rightarrow> v),
                       condition := (case pb_condition b of None \<Rightarrow> condition p2 | v \<Rightarrow> v),
                       ptype := (case pb_type b of None \<Rightarrow> ptype p2 | v \<Rightarrow> v),
                       availability :=
                         (case pb_availability b of None \<Rightarrow> availability p2 | Some v \<Rightarrow> v),
                       features := (case b_features of None \<Rightarrow> features p2 | Some v \<Rightarrow> v),
                       price := (case pb_price b of None \<Rightarrow> price p2 | v \<Rightarrow> v),
                       originalPrice :=
                         (case pb_originalPrice b of None \<Rightarrow> originalPrice p2 | v \<Rightarrow> v),
                       discount := (case pb_discount b of None \<Rightarrow> discount p2 | v \<Rightarrow> v),
                       stock := (case pb_stock b of None \<Rightarrow> stock p2 | v \<Rightarrow> v),
                       specifications :=
                         (case b_spec of None \<Rightarrow> specifications p2 | Some v \<Rightarrow> v),
                       tags := (case b_tags of None \<Rightarrow> tags p2 | Some v \<Rightarrow> v),
                       p_isActive :=
                         (case pb_isActive b of None \<Rightarrow> p_isActive p2 | Some v \<Rightarrow> v) \<rparr>
          in (Inr p3, save p_id p3 products))"

text \<open>\<open>deleteProduct\<close>: the soft delete.\<close>

definition deleteProduct ::
  "env \<Rightarrow> string \<Rightarrow> product list \<Rightarrow> (error + unit) \<times> product list" where
  "deleteProduct E i products =
     (case findById E p_id products i of
        None \<Rightarrow> (Inl InvalidId, products)
      | Some None \<Rightarrow> (Inl ProductNotFound, products)
      | Some (Some p) \<Rightarrow>
          (Inr (), save p_id (p\<lparr>p_isActive := False, availability := ''Discontinued''\<rparr>) products))"

section \<open>Notions used in the properties\<close>

text \<open>The three states of the booking state machine.\<close>

definition validStatus :: "string \<Rightarrow> bool" where
  "validStatus s = (s = ''confirmed'' \<or> s = ''cancelled'' \<or> s = ''completed'')"

text \<open>
  What one operation may do to a stored booking \<open>x\<close>, read off the state machine of the
  specification: \<open>y\<close> is the same booking, and its status is the one of \<open>x\<close>, or \<open>x\<close> was
  confirmed and \<open>y\<close> has the operation's target status.
\<close>

definition statusStep :: "string \<Rightarrow> booking \<Rightarrow> booking \<Rightarrow> bool" where
  "statusStep target x y =
     (b_id y = b_id x
      \<and> (status y = status x \<or> (status x = ''confirmed'' \<and> status y = target)))"

text \<open>
  A stored pricing field against the request's value: the value itself when it is
  truthy, the number 0 when it is not.
\<close>

definition snapshotOf :: "jsval option \<Rightarrow> jsval \<Rightarrow> bool" where
  "snapshotOf requested stored =
     (if truthy requested then requested = Some stored else stored = JNum 0)"

text \<open>
  The page of a listing, in the words of the specification: of the records in sort
  order, the ones at the positions \<open>(p - 1) * l + 1\<close> to \<open>min (p * l) n\<close>, counted from 1
  (here from 0).
\<close>

definition spec_page :: "int \<Rightarrow> int \<Rightarrow> 'a list \<Rightarrow> 'a list" where
  "spec_page p l recs =
     map (\<lambda>k. recs ! k) [nat ((p - 1) * l) ..< min (nat (p * l)) (length recs)]"

text \<open>
  An integer that a JavaScript number holds exactly, and on which JavaScript's
  arithmetic is the one of the integers (\<open>Number.MAX_SAFE_INTEGER\<close> is \<open>2^53 - 1\<close>).
\<close>

definition safeInteger :: "int \<Rightarrow> bool" where
  "safeInteger n = (\<bar>n\<bar> \<le> 9007199254740991)"

text \<open>
  The records a listing ranges over, in sort order: the products that match the
  filter of the query, in the store's order for the query's sort specification, and
  the users that match the filter, newest first.
\<close>

definition matching :: "env \<Rightarrow> productQuery \<Rightarrow> product list \<Rightarrow> product list" where
  "matching E q products =
     sortBy E (case pq_sort q of None \<Rightarrow> ''-createdAt'' | Some s \<Rightarrow> s)
       (filter (matches E (buildFilter E q)) products)"

definition matchingUsers :: "env \<Rightarrow> userQuery \<Rightarrow> user list \<Rightarrow> user list" where
  "matchingUsers E q users =
     sortDesc (\<lambda>u. Some (u_createdAt u)) (filter (userFilter E q) users)"

text \<open>
  The store takes the query of a product listing: it can cast the filter, and it takes
  the sort specification, the projection and the text search. The store takes the
  search of a user listing: there is none, or it is a regular expression.
\<close>

definition storeTakes :: "env \<Rightarrow> productQuery \<Rightarrow> bool" where
  "storeTakes E q =
     (castable (buildFilter E q)
      \<and> accepts E (case pq_sort q of None \<Rightarrow> ''-createdAt'' | Some s \<Rightarrow> s)
            (if given (pq_fields q)
             then map_option (\<lambda>fs. join '' '' (split CHR '','' fs)) (pq_fields q)
             else None)
            (f_text (buildFilter E q)))"

definition searchTaken :: "env \<Rightarrow> userQuery \<Rightarrow> bool" where
  "searchTaken E q = (case q_search q of None \<Rightarrow> True | Some s \<Rightarrow> s = [] \<or> regexOk E s)"

text \<open>
  An explicit \<open>isActive\<close> parameter that selects inactive products: one that is present
  and neither the string \<open>true\<close> nor the boolean \<open>true\<close>.
\<close>

definition selectsInactive :: "productQuery \<Rightarrow> bool" where
  "selectsInactive q =
     (case pq_isActive q of None \<Rightarrow> False | Some v \<Rightarrow> v \<noteq> JStr ''true'' \<and> v \<noteq> JBool True)"

text \<open>
  A product meets the conditions of a query other than the one on \<open>isActive\<close>: it
  matches the query's filter once the filter asks for the product's own \<open>isActive\<close>.
\<close>

definition meetsOthers :: "env \<Rightarrow> productQuery \<Rightarrow> product \<Rightarrow> bool" where
  "meetsOthers E q x = matches E ((buildFilter E q)\<lparr>f_isActive := p_isActive x\<rparr>) x"





section \<open>The runtime on ASCII text\<close>

text \<open>
  The functions of the runtime as they act on ASCII text, for the examples:
  \<open>parseInt\<close> with no radix (leading white space is skipped, a sign is read, a prefix
  \<open>0x\<close> selects radix 16, the longest prefix of digits is the value, and with no digit
  the result is \<open>NaN\<close>), \<open>trim\<close>, \<open>toLowerCase\<close>, and the store's cast of an identifier
  written as 24 hexadecimal digits, which it prints in lower case.
\<close>

definition isSpace :: "char \<Rightarrow> bool" where
  "isSpace c = (c \<in> set [CHR '' '', CHR 0x09, CHR 0x0A, CHR 0x0B, CHR 0x0C, CHR 0x0D])"

definition digitVal :: "char \<Rightarrow> nat option" where
  "digitVal c =
     (let n = (of_char c :: nat) in
      if 48 \<le> n \<and> n \<le> 57 then Some (n - 48)
      else if 97 \<le> n \<and> n \<le> 102 then Some (n - 87)
      else if 65 \<le> n \<and> n \<le> 70 then Some (n - 55)
      else None)"

text \<open>The value of the longest prefix of digits of the radix; \<open>None\<close> when it has no digit.\<close>

fun digitsPrefix :: "nat \<Rightarrow> nat \<Rightarrow> bool \<Rightarrow> string \<Rightarrow> nat option" where
  "digitsPrefix radix acc seen [] = (if seen then Some acc else None)"
| "digitsPrefix radix acc seen (c # cs) =
     (case digitVal c of
        Some d \<Rightarrow>
          if d < radix then digitsPrefix radix (acc * radix + d) True cs
          else (if seen then Some acc else None)
      | None \<Rightarrow> (if seen then Some acc else None))"

definition parseIntAscii :: "string \<Rightarrow> int option" where
  "parseIntAscii s =
     (let t = dropWhile isSpace s;
          neg = (t \<noteq> [] \<and> hd t = CHR ''-'');
          u = (if t \<noteq> [] \<and> (hd t = CHR ''-'' \<or> hd t = CHR ''+'') then tl t else t);
          hex = (take 2 u = ''0x'' \<or> take 2 u = ''0X'');
          r = (if hex then digitsPrefix 16 0 False (drop 2 u) else digitsPrefix 10 0 False u)
      in map_option (\<lambda>n. if neg then - int n else int n) r)"

definition trimAscii :: "string \<Rightarrow> string" where
  "trimAscii s = rev (dropWhile isSpace (rev (dropWhile isSpace s)))"

definition lowerChar :: "char \<Rightarrow> char" where
  "lowerChar c =
     (case map_of (zip ''ABCDEFGHIJKLMNOPQRSTUVWXYZ'' ''abcdefghijklmnopqrstuvwxyz'') c of
        None \<Rightarrow> c
      | Some l \<Rightarrow> l)"

definition lowerAscii :: "string \<Rightarrow> string" where
  "lowerAscii s = map lowerChar s"

definition objectIdCast :: "string \<Rightarrow> string option" where
  "objectIdCast s =
     (if length s = 24 \<and> list_all (\<lambda>c. digitVal c \<noteq> None) s then Some (lowerAscii s)
      else None)"

section \<open>Example data\<close>

text \<open>
  The environment of the examples: every string is an identifier and its own cast,
  nothing is a number for \<open>Number\<close> or a document for \<open>JSON.parse\<close>, the searches find
  everything, the store takes every query, and it hands the products back in the order
  it has them in.
\<close>

definition exEnv :: env where
  "exEnv = \<lparr> castId = Some, parseInt = parseIntAscii, toNumber = (\<lambda>s. NotANumber),
             trim = trimAscii, toLowerCase = lowerAscii, parseJSON = (\<lambda>s. None),
             textSearch = (\<lambda>s d. True), regexOk = (\<lambda>s. True), regexMatch = (\<lambda>s t. True),
             sortBy = (\<lambda>s xs. xs), accepts = (\<lambda>s p t. True) \<rparr>"

text \<open>The same environment with identifiers of 24 hexadecimal digits.\<close>

definition exHexEnv :: env where
  "exHexEnv = exEnv\<lparr>castId := objectIdCast\<rparr>"

definition exAdmin :: user where
  "exAdmin = \<lparr> u_id = ''u1'', u_name = ''Asha'', email = ''asha@example.com'',
               phone = ''9000000001'', password = ''hash-1'', role = ''admin'',
               u_isActive = True, lastLogin = None, u_createdAt = 1 \<rparr>"

definition exCustomer :: user where
  "exCustomer = \<lparr> u_id = ''u2'', u_name = ''Ravi'', email = ''ravi@example.com'',
                  phone = ''9000000002'', password = ''hash-2'', role = ''user'',
                  u_isActive = True, lastLogin = None, u_createdAt = 2 \<rparr>"

definition exOther :: user where
  "exOther = \<lparr> u_id = ''u3'', u_name = ''Meera'', email = ''meera@example.com'',
               phone = ''9000000003'', password = ''hash-3'', role = ''user'',
               u_isActive = True, lastLogin = None, u_createdAt = 3 \<rparr>"

definition exUsers :: "user list" where
  "exUsers = [exAdmin, exCustomer, exOther]"

text \<open>An admin and a user whose identifiers are written as the store prints them.\<close>

definition exRoot :: user where
  "exRoot = exAdmin\<lparr>u_id := ''64b7f0a1c2d3e4f5a6b7c8d9''\<rparr>"

definition exClerk :: user where
  "exClerk = exCustomer\<lparr>u_id := ''64b7f0a1c2d3e4f5a6b7c8da''\<rparr>"

definition exNoChange :: userBody where
  "exNoChange = \<lparr> b_name = None, b_email = None, b_phone = None, b_role = None,
                  b_isActive = None, b_password = None, b_lastLogin = None \<rparr>"

definition exUserQuery :: userQuery where
  "exUserQuery = \<lparr> q_page = Some ''1'', q_limit = Some ''2'', q_role = None, q_search = None \<rparr>"

definition exProduct :: "string \<Rightarrow> product" where
  "exProduct i =
     \<lparr> p_id = i, p_name = Some ''Laptop'', description = Some ''A used laptop'',
       category = Some ''Laptops'', condition = Some ''New'',
       ptype = Some ''New/Refurbished'', availability = ''Available'',
       features = [''fast''], images = [''https://img/a'', ''https://img/b''],
       imagePublicIds = [''img-a'', ''img-b''],
       price = Some 50000, originalPrice = Some 60000, discount = Some 10, stock = Some 5,
       specifications = SpecMap [], tags = [''gaming''], p_isActive = True,
       createdBy = ''u1'' \<rparr>"

definition exCatalog :: "product list" where
  "exCatalog =
     map exProduct [''01'', ''02'', ''03'', ''04'', ''05'', ''06'', ''07'', ''08'', ''09'', ''10'',
                    ''11'', ''12'', ''13'', ''14'', ''15'']"

definition exQuery :: productQuery where
  "exQuery = \<lparr> pq_page = None, pq_limit = None, pq_sort = None, pq_fields = None,
               pq_category = None, pq_condition = None, pq_type = None,
               pq_availability = None, pq_minPrice = None, pq_maxPrice = None,
               pq_search = None, pq_isActive = None, pq_tags = None \<rparr>"

definition exProductBody :: productBody where
  "exProductBody = \<lparr> pb_name = None, pb_description = None, pb_category = None,
                     pb_condition = None, pb_type = None, pb_availability = None,
                     pb_features = None, pb_price = None, pb_originalPrice = None,
                     pb_discount = None, pb_stock = None, pb_specifications = None,
                     pb_tags = None, pb_isActive = None, pb_removePublicIds = None \<rparr>"


definition exBookingBody :: "string \<Rightarrow> body" where
  "exBookingBody date =
     map_of [(''productId'', JStr ''p1''), (''customerName'', JStr ''Ravi''),
             (''customerPhone'', JStr ''9000000002''),
             (''customerAddress'', JStr ''12 Lake Road''), (''quantity'', JNum 1),
             (''bookingDate'', JStr date), (''actualPrice'', JNum 1),
             (''strikePrice'', JNum 0), (''totalAmount'', JStr []),
             (''discountPercentage'', JNull)]"

definition exBooking :: "string \<Rightarrow> string \<Rightarrow> booking" where
  "exBooking i s =
     \<lparr> b_id = i, productId = ''p1'', productName = None, productImage = None,
       productCategory = None, userId = ''u2'', customerName = Some (JStr ''Ravi''),
       customerPhone = Some (JStr ''9000000002''),
       customerAddress = Some (JStr ''12 Lake Road''), quantity = Some (JNum 1),
       bookingDate = Some (JStr ''2025-03-01''), actualPrice = JNum 50000,
       strikePrice = JNum 0, sellingPrice = JNum 0, totalAmount = JNum 0,
       discountPercentage = JNum 0, status = s, cancellationReason = None,
       orderDate = None \<rparr>"

definition exBookings :: "booking list" where
  "exBookings =
     [exBooking ''b1'' ''confirmed'', exBooking ''b2'' ''cancelled'',
      exBooking ''b3'' ''completed'']"


section \<open>The document store: facts\<close>

lemma find_Some_D: "find P xs = Some y \<Longrightarrow> y \<in> set xs \<and> P y"
  by (induction xs) (auto split: if_splits)

lemma find_save:
  "find (\<lambda>x. ident x = i) docs = Some y \<Longrightarrow> ident d = i \<Longrightarrow>
   find (\<lambda>x. ident x = i) (save ident d docs) = Some d"
  by (induction docs) (auto simp: save_def)

lemma find_unique:
  "distinct (map ident docs) \<Longrightarrow> find (\<lambda>x. ident x = i) docs = Some d \<Longrightarrow>
   x \<in> set docs \<Longrightarrow> ident x = i \<Longrightarrow> x = d"
  by (induction docs) (auto split: if_splits simp: rev_image_eqI)

lemma list_all2_save:
  "list_all2 R docs (save ident d docs)
   = list_all (\<lambda>x. R x (if ident x = ident d then d else x)) docs"
  by (induction docs) (auto simp: save_def)

lemma find_map_same_id:
  "(\<And>x. ident (f x) = ident x) \<Longrightarrow>
   find (\<lambda>x. ident x = i) (map f docs) = map_option f (find (\<lambda>x. ident x = i) docs)"
  by (induction docs) auto

lemma findById_found:
  assumes "findById E ident docs i = Some (Some d)"
  shows "find (\<lambda>x. ident x = ident d) docs = Some d" and "castId E i = Some (ident d)"
    and "d \<in> set docs"
proof -
  from assms obtain c where c: "castId E i = Some c" "find (\<lambda>x. ident x = c) docs = Some d"
    by (auto simp: findById_def split: option.splits)
  from find_Some_D[OF c(2)] have d: "d \<in> set docs" "ident d = c" by simp_all
  from c d show "find (\<lambda>x. ident x = ident d) docs = Some d" by simp
  from c d show "castId E i = Some (ident d)" by simp
  from d show "d \<in> set docs" by simp
qed








lemma insertDesc_length: "length (insertDesc k x ys) = Suc (length ys)"
  by (induction ys) auto

lemma sortDesc_length: "length (sortDesc k docs) = length docs"
  by (induction docs) (auto simp: sortDesc_def insertDesc_length)

section \<open>Bookings: the state machine\<close>

lemma save_step:
  assumes inv: "list_all (\<lambda>x. validStatus (status x)) docs"
      and dist: "distinct (map b_id docs)"
      and found: "find (\<lambda>x. b_id x = i) docs = Some bk"
      and id: "b_id bk' = i" and st: "status bk' = target"
      and nc: "status bk \<noteq> ''cancelled''" and nd: "status bk \<noteq> ''completed''"
  shows "list_all2 (statusStep target) docs (save b_id bk' docs)"
proof -
  have "statusStep target x (if b_id x = b_id bk' then bk' else x)" if x: "x \<in> set docs" for x
  proof (cases "b_id x = b_id bk'")
    case True
    with find_unique[OF dist found x] id have "x = bk" by simp
    moreover from inv x have "validStatus (status x)" by (simp add: list_all_iff)
    ultimately show ?thesis
      using True nc nd st by (auto simp: statusStep_def validStatus_def)
  next
    case False
    then show ?thesis by (simp add: statusStep_def)
  qed
  then show ?thesis by (simp add: list_all2_save list_all_iff)
qed

lemma statusStep_refl: "list_all2 (statusStep t) docs docs"
  by (simp add: list_all2_same statusStep_def)

lemma statusStep_valid:
  "validStatus t \<Longrightarrow> list_all (\<lambda>x. validStatus (status x)) xs \<Longrightarrow>
   list_all2 (statusStep t) xs ys \<Longrightarrow> list_all (\<lambda>x. validStatus (status x)) ys"
  by (induction xs ys rule: list_induct2') (auto simp: statusStep_def)

lemma cancel_step:
  assumes inv: "list_all (\<lambda>x. validStatus (status x)) bookings"
      and dist: "distinct (map b_id bookings)"
  shows "list_all2 (statusStep ''cancelled'') bookings
           (snd (cancelBooking E actor i rb bookings))"
proof (cases "findById E b_id bookings i")
  case None
  then show ?thesis by (simp add: cancelBooking_def statusStep_refl)
next
  case (Some r)
  show ?thesis
  proof (cases r)
    case None
    with Some show ?thesis by (simp add: cancelBooking_def statusStep_refl)
  next
    case (Some bk)
    with \<open>findById E b_id bookings i = Some r\<close>
    have f: "findById E b_id bookings i = Some (Some bk)" by simp
    show ?thesis
      using f save_step[OF inv dist findById_found(1)[OF f], of _ "''cancelled''"]
      by (simp add: cancelBooking_def Let_def statusStep_refl updateStatus_def)
  qed
qed

lemma complete_step:
  assumes inv: "list_all (\<lambda>x. validStatus (status x)) bookings"
      and dist: "distinct (map b_id bookings)"
  shows "list_all2 (statusStep ''completed'') bookings
           (snd (completeBooking E actor i bookings))"
proof (cases "findById E b_id bookings i")
  case None
  then show ?thesis by (simp add: completeBooking_def statusStep_refl)
next
  case (Some r)
  show ?thesis
  proof (cases r)
    case None
    with Some show ?thesis by (simp add: completeBooking_def statusStep_refl)
  next
    case (Some bk)
    with \<open>findById E b_id bookings i = Some r\<close>
    have f: "findById E b_id bookings i = Some (Some bk)" by simp
    show ?thesis
      using f save_step[OF inv dist findById_found(1)[OF f], of _ "''completed''"]
      by (simp add: completeBooking_def Let_def statusStep_refl updateStatus_def)
  qed
qed

lemma findProduct_found:
  assumes "findProduct E products v = Some (Some p)"
  shows "p \<in> set products \<and> (\<exists>i. v = Some (JStr i) \<and> castId E i = Some (p_id p))"
proof -
  from assms obtain i where i: "v = Some (JStr i)" "findById E p_id products i = Some (Some p)"
    by (auto simp: findProduct_def split: option.splits jsval.splits)
  from findById_found(2,3)[OF i(2)] i(1) show ?thesis by simp
qed

lemma create_outcome:
  assumes "createBooking E actor newId stamp b products bookings = (Inr nb, bs')"
  shows "status nb = ''confirmed'' \<and> bs' = bookings @ [nb]
         \<and> (\<exists>p. findProduct E products (b ''productId'') = Some (Some p)
                 \<and> p \<in> set products
                 \<and> (\<exists>i. b ''productId'' = Some (JStr i) \<and> castId E i = Some (p_id p))
                 \<and> availability p = ''Available'')"
proof -
  from assms obtain p where p: "findProduct E products (b ''productId'') = Some (Some p)"
    and a: "availability p = ''Available''" and s: "status nb = ''confirmed''"
    and bs: "bs' = bookings @ [nb]"
    by (auto simp: createBooking_def Let_def split: if_splits option.splits)
  from findProduct_found[OF p] p a s bs show ?thesis by blast
qed

lemma create_frame:
  "snd (createBooking E actor newId stamp b products bookings) = bookings
   \<or> (\<exists>nb. status nb = ''confirmed''
          \<and> snd (createBooking E actor newId stamp b products bookings) = bookings @ [nb])"
  by (auto simp: createBooking_def Let_def split: if_splits option.splits)

lemma cancel_outcome:
  assumes f: "findById E b_id bookings i = Some (Some bk)"
      and auth: "role actor = ''admin'' \<or> userId bk = u_id actor"
  shows "(status bk = ''confirmed'' \<longrightarrow>
            (\<exists>bk'. cancelBooking E actor i rb bookings = (Inr bk', save b_id bk' bookings)
                  \<and> status bk' = ''cancelled''
                  \<and> findById E b_id (save b_id bk' bookings) i = Some (Some bk')))
       \<and> (status bk = ''cancelled'' \<longrightarrow>
            cancelBooking E actor i rb bookings = (Inl AlreadyCancelled, bookings))
       \<and> (status bk = ''completed'' \<longrightarrow>
            cancelBooking E actor i rb bookings = (Inl CannotCancelCompleted, bookings))"
  using f auth findById_found(2)[OF f] find_save[OF findById_found(1)[OF f]]
  by (auto simp: cancelBooking_def Let_def updateStatus_def findById_def)

lemma complete_outcome:
  assumes f: "findById E b_id bookings i = Some (Some bk)"
      and auth: "role actor = ''admin''"
  shows "(status bk = ''confirmed'' \<longrightarrow>
            (\<exists>bk'. completeBooking E actor i bookings = (Inr bk', save b_id bk' bookings)
                  \<and> status bk' = ''completed''
                  \<and> findById E b_id (save b_id bk' bookings) i = Some (Some bk')))
       \<and> (status bk = ''completed'' \<longrightarrow>
            completeBooking E actor i bookings = (Inl AlreadyCompleted, bookings))
       \<and> (status bk = ''cancelled'' \<longrightarrow>
            completeBooking E actor i bookings = (Inl CannotCompleteCancelled, bookings))"
  using f auth findById_found(2)[OF f] find_save[OF findById_found(1)[OF f]]
  by (auto simp: completeBooking_def Let_def updateStatus_def findById_def)

text \<open>
  C1. Booking status follows the declared state machine. A booking is created with
  status confirmed, and only for a product that exists, that the request's productId
  names, and that is Available. For a stored booking and an actor who may act on it
  (owner or admin for cancel, admin for complete): from confirmed, cancel stores it as
  cancelled and complete stores it as completed; cancel fails with AlreadyCancelled on a
  cancelled and with CannotCancelCompleted on a completed booking; complete fails with
  AlreadyCompleted on a completed and with CannotCompleteCancelled on a cancelled
  booking, and a failed operation leaves the store as it was. No other transition is
  possible: whoever calls them with whatever arguments, cancel and complete leave every
  stored booking in its status or move a confirmed one to their target status, creation
  only appends a confirmed booking, and the three states are never left.
\<close>

theorem booking_state_machine:
  assumes inv: "list_all (\<lambda>x. validStatus (status x)) bookings"
      and dist: "distinct (map b_id bookings)"
  shows "(createBooking E actor newId stamp b products bookings = (Inr nb, bs') \<longrightarrow>
            status nb = ''confirmed'' \<and> bs' = bookings @ [nb]
            \<and> (\<exists>p. findProduct E products (b ''productId'') = Some (Some p)
                    \<and> p \<in> set products
                    \<and> (\<exists>i. b ''productId'' = Some (JStr i) \<and> castId E i = Some (p_id p))
                    \<and> availability p = ''Available''))
       \<and> (findById E b_id bookings i = Some (Some bk)
            \<and> (role actor = ''admin'' \<or> userId bk = u_id actor) \<longrightarrow>
            (status bk = ''confirmed'' \<longrightarrow>
               (\<exists>bk'. cancelBooking E actor i rb bookings
                        = (Inr bk', save b_id bk' bookings)
                     \<and> status bk' = ''cancelled''
                     \<and> findById E b_id (save b_id bk' bookings) i = Some (Some bk')))
          \<and> (status bk = ''cancelled'' \<longrightarrow>
               cancelBooking E actor i rb bookings = (Inl AlreadyCancelled, bookings))
          \<and> (status bk = ''completed'' \<longrightarrow>
               cancelBooking E actor i rb bookings
                 = (Inl CannotCancelCompleted, bookings)))
       \<and> (findById E b_id bookings i = Some (Some bk) \<and> role actor = ''admin'' \<longrightarrow>
            (status bk = ''confirmed'' \<longrightarrow>
               (\<exists>bk'. completeBooking E actor i bookings
                        = (Inr bk', save b_id bk' bookings)
                     \<and> status bk' = ''completed''
                     \<and> findById E b_id (save b_id bk' bookings) i = Some (Some bk')))
          \<and> (status bk = ''completed'' \<longrightarrow>
               completeBooking E actor i bookings = (Inl AlreadyCompleted, bookings))
          \<and> (status bk = ''cancelled'' \<longrightarrow>
               completeBooking E actor i bookings
                 = (Inl CannotCompleteCancelled, bookings)))
       \<and> list_all2 (statusStep ''cancelled'') bookings
            (snd (cancelBooking E actor i rb bookings))
       \<and> list_all2 (statusStep ''completed'') bookings
            (snd (completeBooking E actor i bookings))
       \<and> (snd (createBooking E actor newId stamp b products bookings) = bookings
            \<or> (\<exists>nb. status nb = ''confirmed''
                  \<and> snd (createBooking E actor newId stamp b products bookings)
                      = bookings @ [nb]))
       \<and> list_all (\<lambda>x. validStatus (status x))
            (snd (cancelBooking E actor i rb bookings))
       \<and> list_all (\<lambda>x. validStatus (status x))
            (snd (completeBooking E actor i bookings))
       \<and> list_all (\<lambda>x. validStatus (status x))
            (snd (createBooking E actor newId stamp b products bookings))"
proof -
  have c1: "list_all2 (statusStep ''cancelled'') bookings
              (snd (cancelBooking E actor i rb bookings))"
    by (rule cancel_step[OF inv dist])
  have c2: "list_all2 (statusStep ''completed'') bookings
              (snd (completeBooking E actor i bookings))"
    by (rule complete_step[OF inv dist])
  have v1: "list_all (\<lambda>x. validStatus (status x))
              (snd (cancelBooking E actor i rb bookings))"
    by (rule statusStep_valid[OF _ inv c1]) (simp add: validStatus_def)
  have v2: "list_all (\<lambda>x. validStatus (status x))
              (snd (completeBooking E actor i bookings))"
    by (rule statusStep_valid[OF _ inv c2]) (simp add: validStatus_def)
  have v3: "list_all (\<lambda>x. validStatus (status x))
              (snd (createBooking E actor newId stamp b products bookings))"
    using create_frame[of E actor newId stamp b products bookings] inv
    by (auto simp: validStatus_def)
  show ?thesis
    using create_outcome[of E actor newId stamp b products bookings nb bs']
      cancel_outcome[of E bookings i bk actor rb]
      complete_outcome[of E bookings i bk actor]
      create_frame[of E actor newId stamp b products bookings]
      c1 c2 v1 v2 v3
    by blast
qed

theorem booking_state_machine_witness:
  "list_all (\<lambda>x. validStatus (status x)) exBookings
   \<and> distinct (map b_id exBookings)
   \<and> map_sum id status
        (fst (createBooking exEnv exCustomer ''b4'' (Some 4) (exBookingBody ''2025-03-02'')
                [exProduct ''p1''] exBookings)) = Inr ''confirmed''
   \<and> map_sum id status (fst (cancelBooking exEnv exCustomer ''b1'' Map.empty exBookings))
       = Inr ''cancelled''
   \<and> fst (cancelBooking exEnv exCustomer ''b2'' Map.empty exBookings) = Inl AlreadyCancelled
   \<and> fst (cancelBooking exEnv exCustomer ''b3'' Map.empty exBookings)
       = Inl CannotCancelCompleted
   \<and> map_sum id status (fst (completeBooking exEnv exAdmin ''b1'' exBookings))
       = Inr ''completed''
   \<and> fst (completeBooking exEnv exAdmin ''b2'' exBookings) = Inl CannotCompleteCancelled
   \<and> fst (completeBooking exEnv exAdmin ''b3'' exBookings) = Inl AlreadyCompleted"
proof -
  have inv: "list_all (\<lambda>x. validStatus (status x)) exBookings"
    by (simp add: exBookings_def exBooking_def validStatus_def)
  have dist: "distinct (map b_id exBookings)"
    by (simp add: exBookings_def exBooking_def)
  have f1: "findById exEnv b_id exBookings ''b1''
              = Some (Some (exBooking ''b1'' ''confirmed''))"
    and f2: "findById exEnv b_id exBookings ''b2''
              = Some (Some (exBooking ''b2'' ''cancelled''))"
    and f3: "findById exEnv b_id exBookings ''b3''
              = Some (Some (exBooking ''b3'' ''completed''))"
    by (simp_all add: findById_def exEnv_def exBookings_def exBooking_def)
  have own: "userId (exBooking i s) = u_id exCustomer" for i s
    by (simp add: exBooking_def exCustomer_def)
  have adm: "role exAdmin = ''admin''" by (simp add: exAdmin_def)
  have st: "status (exBooking i s) = s" for i s by (simp add: exBooking_def)
  obtain nb bs' where c:
    "createBooking exEnv exCustomer ''b4'' (Some 4) (exBookingBody ''2025-03-02'')
       [exProduct ''p1''] exBookings = (Inr nb, bs')"
    by (simp add: createBooking_def findProduct_def findById_def exEnv_def exBookingBody_def
        exProduct_def Let_def)
  note T = booking_state_machine[OF inv dist, where E = exEnv and rb = Map.empty
              and products = "[exProduct ''p1'']" and newId = "''b4''" and stamp = "Some 4"
              and b = "exBookingBody ''2025-03-02''" and nb = nb and bs' = bs']
  note Tc = T[where actor = exCustomer]
  note Ta = T[where actor = exAdmin]
  from Tc[where i = "''b1''" and bk = "exBooking ''b1'' ''confirmed''", THEN conjunct1] c
  have create: "map_sum id status
        (fst (createBooking exEnv exCustomer ''b4'' (Some 4) (exBookingBody ''2025-03-02'')
                [exProduct ''p1''] exBookings)) = Inr ''confirmed''"
    by simp
  from Tc[where i = "''b1''" and bk = "exBooking ''b1'' ''confirmed''",
          THEN conjunct2, THEN conjunct1] f1 own st
  have a1: "map_sum id status
              (fst (cancelBooking exEnv exCustomer ''b1'' Map.empty exBookings))
            = Inr ''cancelled''"
    by fastforce
  from Tc[where i = "''b2''" and bk = "exBooking ''b2'' ''cancelled''",
          THEN conjunct2, THEN conjunct1] f2 own st
  have a2: "fst (cancelBooking exEnv exCustomer ''b2'' Map.empty exBookings)
            = Inl AlreadyCancelled"
    by simp
  from Tc[where i = "''b3''" and bk = "exBooking ''b3'' ''completed''",
          THEN conjunct2, THEN conjunct1] f3 own st
  have a3: "fst (cancelBooking exEnv exCustomer ''b3'' Map.empty exBookings)
            = Inl CannotCancelCompleted"
    by simp
  from Ta[where i = "''b1''" and bk = "exBooking ''b1'' ''confirmed''",
          THEN conjunct2, THEN conjunct2, THEN conjunct1] f1 adm st
  have b1: "map_sum id status (fst (completeBooking exEnv exAdmin ''b1'' exBookings))
            = Inr ''completed''"
    by fastforce
  from Ta[where i = "''b2''" and bk = "exBooking ''b2'' ''cancelled''",
          THEN conjunct2, THEN conjunct2, THEN conjunct1] f2 adm st
  have b2: "fst (completeBooking exEnv exAdmin ''b2'' exBookings)
            = Inl CannotCompleteCancelled"
    by simp
  from Ta[where i = "''b3''" and bk = "exBooking ''b3'' ''completed''",
          THEN conjunct2, THEN conjunct2, THEN conjunct1] f3 adm st
  have b3: "fst (completeBooking exEnv exAdmin ''b3'' exBookings) = Inl AlreadyCompleted"
    by simp
  from inv dist create a1 a2 a3 b1 b2 b3 show ?thesis by blast
qed

section \<open>Bookings: the pricing snapshot\<close>

lemma findProduct_map:
  assumes "\<And>x. p_id (f x) = p_id x"
  shows "findProduct E (map f products) v = map_option (map_option f) (findProduct E products v)"
proof -
  have "find (\<lambda>x. p_id x = i) (map f products)
        = map_option f (find (\<lambda>x. p_id x = i) products)" for i
    using assms by (rule find_map_same_id[where ident = p_id and f = f])
  then show ?thesis
    by (auto simp: findProduct_def findById_def split: option.splits jsval.splits)
qed

text \<open>
  C10. Every successful booking creation stores one new booking, at the end of the
  collection, and in it each pricing snapshot field (actualPrice, strikePrice,
  sellingPrice, totalAmount, discountPercentage) is the request's value when that value
  is truthy and 0 otherwise. None of them is derived from or checked against the
  product: whatever price, original price, discount and stock the products carry, the
  same request creates and stores the same booking.
\<close>

theorem booking_pricing_snapshot:
  assumes ok: "createBooking E actor newId stamp b products bookings = (Inr bk, bs')"
  shows "bs' = bookings @ [bk]
       \<and> snapshotOf (b ''actualPrice'') (actualPrice bk)
       \<and> snapshotOf (b ''strikePrice'') (strikePrice bk)
       \<and> snapshotOf (b ''sellingPrice'') (sellingPrice bk)
       \<and> snapshotOf (b ''totalAmount'') (totalAmount bk)
       \<and> snapshotOf (b ''discountPercentage'') (discountPercentage bk)
       \<and> createBooking E actor newId stamp b
            (map (\<lambda>p. p\<lparr>price := pr p, originalPrice := po p, discount := pd p, stock := ps p\<rparr>)
               products) bookings
          = (Inr bk, bookings @ [bk])"
proof -
  have snap: "snapshotOf x (orElse x (JNum 0))" for x
    by (cases x) (auto simp: snapshotOf_def orElse_def)
  let ?f = "\<lambda>p. p\<lparr>price := pr p, originalPrice := po p, discount := pd p, stock := ps p\<rparr>"
  have fm: "findProduct E (map ?f products) v
            = map_option (map_option ?f) (findProduct E products v)" for v
    by (rule findProduct_map) simp
  from ok have stored: "bs' = bookings @ [bk]"
    by (auto simp: createBooking_def Let_def split: if_splits option.splits)
  from ok have fields:
    "actualPrice bk = orElse (b ''actualPrice'') (JNum 0)"
    "strikePrice bk = orElse (b ''strikePrice'') (JNum 0)"
    "sellingPrice bk = orElse (b ''sellingPrice'') (JNum 0)"
    "totalAmount bk = orElse (b ''totalAmount'') (JNum 0)"
    "discountPercentage bk = orElse (b ''discountPercentage'') (JNum 0)"
    by (auto simp: createBooking_def Let_def split: if_splits option.splits)
  from ok have same: "createBooking E actor newId stamp b (map ?f products) bookings = (Inr bk, bs')"
    unfolding createBooking_def fm
    by (auto simp: Let_def split: if_splits option.splits)
  show ?thesis using fields same stored by (simp add: snap)
qed

theorem booking_pricing_snapshot_witness:
  "map_sum id (\<lambda>bk. [actualPrice bk, strikePrice bk, sellingPrice bk, totalAmount bk,
                      discountPercentage bk])
     (fst (createBooking exEnv exCustomer ''b4'' (Some 4) (exBookingBody ''2025-03-02'')
             [exProduct ''p1''] exBookings))
   = Inr [JNum 1, JNum 0, JNum 0, JNum 0, JNum 0]
   \<and> map b_id (snd (createBooking exEnv exCustomer ''b4'' (Some 4)
                      (exBookingBody ''2025-03-02'') [exProduct ''p1''] exBookings))
     = [''b1'', ''b2'', ''b3'', ''b4'']
   \<and> price (exProduct ''p1'') = Some 50000"
proof -
  obtain bk bs' where c:
    "createBooking exEnv exCustomer ''b4'' (Some 4) (exBookingBody ''2025-03-02'')
       [exProduct ''p1''] exBookings = (Inr bk, bs')"
    by (simp add: createBooking_def findProduct_def findById_def exEnv_def exBookingBody_def
        exProduct_def Let_def)
  have id: "b_id bk = ''b4''"
    using c by (auto simp: createBooking_def Let_def split: if_splits option.splits)
  from booking_pricing_snapshot[OF c]
  have "actualPrice bk = JNum 1" "strikePrice bk = JNum 0" "sellingPrice bk = JNum 0"
       "totalAmount bk = JNum 0" "discountPercentage bk = JNum 0" "bs' = exBookings @ [bk]"
    by (simp_all add: snapshotOf_def exBookingBody_def)
  with c id show ?thesis by (simp add: exProduct_def exBookings_def exBooking_def)
qed

section \<open>Bookings: the list\<close>



section \<open>Users: the guards of the acting admin\<close>

text \<open>
  C8. An admin's request against the admin's own account is to fail, with the
  self-demotion error for an update that sets the role to user and with SelfDelete for
  a delete, and to leave the account as it was. Both guards compare the identifier of
  the acting admin, as the store prints it, with the string of the request, while the
  store looks the account up by the cast of that string. With identifiers of 24
  hexadecimal digits, which the store prints in lower case, an admin who writes the own
  identifier in upper case passes both guards: the delete request deactivates the
  admin's account and the update request makes the admin a user. The same requests
  with the identifier in lower case are refused.
\<close>

theorem self_guards_miss_other_spelling:
  "u_id exRoot = ''64b7f0a1c2d3e4f5a6b7c8d9'' \<and> role exRoot = ''admin'' \<and> u_isActive exRoot
   \<and> deleteUser exHexEnv exRoot ''64B7F0A1C2D3E4F5A6B7C8D9'' [exRoot, exClerk]
       = (Inr (), [exRoot\<lparr>u_isActive := False\<rparr>, exClerk])
   \<and> updateUser exHexEnv True exRoot ''64B7F0A1C2D3E4F5A6B7C8D9''
        (exNoChange\<lparr>b_role := Some ''user''\<rparr>) [exRoot, exClerk]
       = (Inr (Some (exRoot\<lparr>role := ''user''\<rparr>)), [exRoot\<lparr>role := ''user''\<rparr>, exClerk])
   \<and> deleteUser exHexEnv exRoot ''64b7f0a1c2d3e4f5a6b7c8d9'' [exRoot, exClerk]
       = (Inl SelfDelete, [exRoot, exClerk])
   \<and> updateUser exHexEnv True exRoot ''64b7f0a1c2d3e4f5a6b7c8d9''
        (exNoChange\<lparr>b_role := Some ''user''\<rparr>) [exRoot, exClerk]
       = (Inl SelfDemotion, [exRoot, exClerk])"
proof -
  have up: "castId exHexEnv ''64B7F0A1C2D3E4F5A6B7C8D9'' = Some ''64b7f0a1c2d3e4f5a6b7c8d9''"
    by (simp add: exHexEnv_def exEnv_def objectIdCast_def digitVal_def lowerAscii_def
        lowerChar_def)
  have lo: "castId exHexEnv ''64b7f0a1c2d3e4f5a6b7c8d9'' = Some ''64b7f0a1c2d3e4f5a6b7c8d9''"
    by (simp add: exHexEnv_def exEnv_def objectIdCast_def digitVal_def lowerAscii_def
        lowerChar_def)
  note ev = updateUser_def deleteUser_def findByIdAndUpdate_def findById_def applyUpdate_def
    uniqueOk_def save_def given_def exRoot_def exClerk_def exAdmin_def exCustomer_def
    exNoChange_def Let_def
  have a: "u_id exRoot = ''64b7f0a1c2d3e4f5a6b7c8d9'' \<and> role exRoot = ''admin''
           \<and> u_isActive exRoot"
    by (simp add: exRoot_def exAdmin_def)
  have d1: "deleteUser exHexEnv exRoot ''64B7F0A1C2D3E4F5A6B7C8D9'' [exRoot, exClerk]
       = (Inr (), [exRoot\<lparr>u_isActive := False\<rparr>, exClerk])"
    by (simp add: up ev)
  have u1: "updateUser exHexEnv True exRoot ''64B7F0A1C2D3E4F5A6B7C8D9''
        (exNoChange\<lparr>b_role := Some ''user''\<rparr>) [exRoot, exClerk]
       = (Inr (Some (exRoot\<lparr>role := ''user''\<rparr>)), [exRoot\<lparr>role := ''user''\<rparr>, exClerk])"
    by (simp add: up ev)
  have d2: "deleteUser exHexEnv exRoot ''64b7f0a1c2d3e4f5a6b7c8d9'' [exRoot, exClerk]
       = (Inl SelfDelete, [exRoot, exClerk])"
    by (simp add: lo ev)
  have u2: "updateUser exHexEnv True exRoot ''64b7f0a1c2d3e4f5a6b7c8d9''
        (exNoChange\<lparr>b_role := Some ''user''\<rparr>) [exRoot, exClerk]
       = (Inl SelfDemotion, [exRoot, exClerk])"
    by (simp add: lo ev)
  from a d1 u1 d2 u2 show ?thesis by blast
qed

text \<open>
  What the guards do catch: the request that names the acting admin by the very string
  the store prints. Neither error is the answer for another string, and the demotion
  error is no answer to a request that does not set the role to user.
\<close>

lemma self_guards_same_spelling:
  assumes self: "findById E u_id users (u_id actor) = Some (Some u)"
  shows "(errorsEmpty \<and> b_role b = Some ''user'' \<longrightarrow>
            updateUser E errorsEmpty actor (u_id actor) b users = (Inl SelfDemotion, users))
       \<and> deleteUser E actor (u_id actor) users = (Inl SelfDelete, users)
       \<and> (i \<noteq> u_id actor \<longrightarrow>
            fst (updateUser E errorsEmpty actor i b users) \<noteq> Inl SelfDemotion
            \<and> fst (deleteUser E actor i users) \<noteq> Inl SelfDelete)
       \<and> (b_role b \<noteq> Some ''user'' \<longrightarrow>
            fst (updateUser E errorsEmpty actor (u_id actor) b users) \<noteq> Inl SelfDemotion)"
proof -
  from self have 1: "errorsEmpty \<and> b_role b = Some ''user'' \<longrightarrow>
            updateUser E errorsEmpty actor (u_id actor) b users = (Inl SelfDemotion, users)"
    by (simp add: updateUser_def)
  from self have 3: "deleteUser E actor (u_id actor) users = (Inl SelfDelete, users)"
    by (simp add: deleteUser_def)
  have 4: "fst (updateUser E errorsEmpty actor i b users) \<noteq> Inl SelfDemotion"
    if "i \<noteq> u_id actor \<or> b_role b \<noteq> Some ''user''" for i
    using that by (auto simp: updateUser_def split: option.splits if_splits prod.splits)
  have 5: "fst (deleteUser E actor i users) \<noteq> Inl SelfDelete" if "i \<noteq> u_id actor"
    using that by (auto simp: deleteUser_def split: option.splits)
  show ?thesis using 1 3 4 5 by blast
qed

section \<open>Users: what an update writes\<close>

text \<open>
  C4. Fields outside name, email, phone, role and isActive are to be ignored by an
  admin's update. \<open>updateUser\<close> hands the whole body to the store: a body that carries
  \<open>password\<close> replaces the stored password of the target.
\<close>

theorem updateUser_writes_password:
  "fst (updateUser exEnv True exAdmin ''u2'' (exNoChange\<lparr>b_password := Some ''plain-text''\<rparr>)
          exUsers)
     = Inr (Some (exCustomer\<lparr>password := ''plain-text''\<rparr>))
   \<and> map password
        (snd (updateUser exEnv True exAdmin ''u2''
                (exNoChange\<lparr>b_password := Some ''plain-text''\<rparr>) exUsers))
     = [''hash-1'', ''plain-text'', ''hash-3'']
   \<and> map password exUsers = [''hash-1'', ''hash-2'', ''hash-3'']"
  by (simp add: updateUser_def findByIdAndUpdate_def findById_def applyUpdate_def uniqueOk_def
      save_def given_def exEnv_def exUsers_def exAdmin_def exCustomer_def exOther_def
      exNoChange_def Let_def)

text \<open>
  C5. A new e-mail or a new phone that another user holds is to make the update fail
  with Conflict, whichever of the two the request changes. When the request changes
  both, the lookup asks for one other user who holds both values: with the e-mail of
  another user and a free phone it finds nobody, no Conflict is answered, and the
  request goes on to the store's write, which the unique index refuses. The same e-mail
  alone is answered with the Conflict.
\<close>

theorem updateUser_misses_conflict:
  "find (conflictFilter exEnv ''u2''
           (exNoChange\<lparr>b_email := Some ''meera@example.com'', b_phone := Some ''9000000009''\<rparr>))
     exUsers = None
   \<and> updateUser exEnv True exAdmin ''u2''
        (exNoChange\<lparr>b_email := Some ''meera@example.com'', b_phone := Some ''9000000009''\<rparr>)
        exUsers
     = (Inl ServerError, exUsers)
   \<and> updateUser exEnv True exAdmin ''u2''
        (exNoChange\<lparr>b_email := Some ''meera@example.com''\<rparr>) exUsers
     = (Inl EmailInUse, exUsers)"
  by (simp add: updateUser_def findByIdAndUpdate_def findById_def applyUpdate_def uniqueOk_def
      conflictFilter_def save_def given_def exEnv_def exUsers_def exAdmin_def exCustomer_def
      exOther_def exNoChange_def Let_def)

text \<open>
  What the lookup does catch: whenever some other user meets the conflict filter, the
  answer is one of the two Conflict errors and nothing is written. That is the case
  when the request gives only the e-mail, or only the phone, and another user holds it.
\<close>

lemma find_exists: "x \<in> set xs \<Longrightarrow> P x \<Longrightarrow> \<exists>y. find P xs = Some y \<and> P y"
  by (induction xs) auto

lemma updateUser_conflict_found:
  assumes ok: "errorsEmpty" and f: "findById E u_id users i = Some (Some u)"
      and nd: "\<not> (u_id actor = i \<and> b_role b = Some ''user'')"
      and g: "given (b_email b) \<or> given (b_phone b)"
      and x: "x \<in> set users" "conflictFilter E i b x"
  shows "updateUser E errorsEmpty actor i b users = (Inl EmailInUse, users)
         \<or> updateUser E errorsEmpty actor i b users = (Inl PhoneInUse, users)"
proof -
  from find_exists[of x users "conflictFilter E i b", OF x]
  obtain y where "find (conflictFilter E i b) users = Some y" by blast
  with ok f nd g show ?thesis by (simp add: updateUser_def)
qed

lemma updateUser_conflict_one_field:
  assumes ok: "errorsEmpty" and f: "findById E u_id users i = Some (Some u)"
      and nd: "\<not> (u_id actor = i \<and> b_role b = Some ''user'')"
      and x: "x \<in> set users" "u_id x \<noteq> u_id u"
      and one: "(given (b_email b) \<and> \<not> given (b_phone b) \<and> b_email b = Some (email x))
                \<or> (given (b_phone b) \<and> \<not> given (b_email b) \<and> b_phone b = Some (phone x))"
  shows "updateUser E errorsEmpty actor i b users = (Inl EmailInUse, users)
         \<or> updateUser E errorsEmpty actor i b users = (Inl PhoneInUse, users)"
proof (rule updateUser_conflict_found[OF ok f nd _ x(1)])
  from one show "given (b_email b) \<or> given (b_phone b)" by blast
  from one x(2) findById_found(2)[OF f] show "conflictFilter E i b x"
    by (auto simp: conflictFilter_def)
qed

section \<open>Listings: pagination\<close>

lemma take_drop_nth:
  "take m (drop k xs) = map (\<lambda>j. xs ! j) [k ..< min (k + m) (length xs)]"
  by (auto simp: list_eq_iff_nth_eq)

lemma skipLimit_page:
  assumes "1 \<le> p" "1 \<le> l"
  shows "skipLimit ((p - 1) * l) l recs = Some (spec_page p l recs)"
proof -
  from assms have "0 \<le> (p - 1) * l" by simp
  then have s: "\<not> (p - 1) * l < 0" by linarith
  from assms have e: "nat ((p - 1) * l) + nat l = nat (p * l)"
    by (simp add: nat_add_distrib[symmetric] algebra_simps)
  from assms have l: "l \<noteq> 0" "\<bar>l\<bar> = l" by simp_all
  show ?thesis
    by (simp add: skipLimit_def spec_page_def take_drop_nth s l e)
qed

lemma ceilDiv_ceiling:
  "1 \<le> l \<Longrightarrow> ceilDiv n l = Finite \<lceil>real_of_int n / real_of_int l\<rceil>"
  by (simp add: ceilDiv_def ceiling_divide_eq_div)

lemma more_follow:
  assumes "1 \<le> p" "1 \<le> l"
  shows "(p * l < int (length recs)) = (drop (nat (p * l)) recs \<noteq> [])"
proof -
  from assms have "0 \<le> p * l" by simp
  then have a: "(nat (p * l) < length recs) = (p * l < int (length recs))"
    by (rule nat_less_iff)
  have b: "(drop (nat (p * l)) recs \<noteq> []) = (nat (p * l) < length recs)"
    by (simp add: not_le)
  show ?thesis by (simp only: a b)
qed

lemma less_ceiling_pages:
  assumes "1 \<le> l"
  shows "lessThan p (ceilDiv n l) = (p * l < n)"
proof -
  from assms have l: "0 < real_of_int l" by simp
  have "(p < \<lceil>real_of_int n / real_of_int l\<rceil>) = (real_of_int p < real_of_int n / real_of_int l)"
    by (rule less_ceiling_iff)
  also have "\<dots> = (real_of_int p * real_of_int l < real_of_int n)"
    using l by (simp add: pos_less_divide_eq)
  also have "\<dots> = (p * l < n)"
    by (metis of_int_less_iff of_int_mult)
  finally show ?thesis using assms by (simp add: ceilDiv_ceiling)
qed

lemma listProducts_page:
  assumes pg: "parseIntOr E 1 (pq_page q) = Some p" and lm: "parseIntOr E 12 (pq_limit q) = Some l"
      and tk: "storeTakes E q"
      and p1: "1 \<le> p" and l1: "1 \<le> l"
      and len: "\<And>s xs. length (sortBy E s xs) = length xs"
  shows "\<exists>r. listProducts E q products = Inr r
           \<and> products_of r = spec_page p l (matching E q products)
           \<and> currentPage (products_pagination r) = p
           \<and> totalPages (products_pagination r)
               = Finite \<lceil>real (length (matching E q products)) / real_of_int l\<rceil>
           \<and> totalItems (products_pagination r) = int (length (matching E q products))
           \<and> hasPrevPage (products_pagination r) = (p > 1)
           \<and> hasNextPage (products_pagination r)
               = (drop (nat (p * l)) (matching E q products) \<noteq> [])"
  using more_follow[OF p1 l1, of "matching E q products"] tk
  by (simp add: listProducts_def matching_def storeTakes_def pg lm Let_def
      skipLimit_page[OF p1 l1] ceilDiv_ceiling[OF l1] len)

lemma getUsers_page:
  assumes pg: "parseIntOr E 1 (q_page uq) = Some p" and lm: "parseIntOr E 10 (q_limit uq) = Some l"
      and tk: "searchTaken E uq"
      and p1: "1 \<le> p" and l1: "1 \<le> l"
  shows "\<exists>r. getUsers E True uq users = Inr r
           \<and> users_of r = spec_page p l (matchingUsers E uq users)
           \<and> currentPage (users_pagination r) = p
           \<and> totalPages (users_pagination r)
               = Finite \<lceil>real (length (matchingUsers E uq users)) / real_of_int l\<rceil>
           \<and> totalItems (users_pagination r) = int (length (matchingUsers E uq users))
           \<and> hasPrevPage (users_pagination r) = (p > 1)
           \<and> hasNextPage (users_pagination r)
               = (drop (nat (p * l)) (matchingUsers E uq users) \<noteq> [])"
proof -
  have nt: "\<not> (case q_search uq of None \<Rightarrow> False | Some s \<Rightarrow> s \<noteq> [] \<and> \<not> regexOk E s)"
    using tk by (auto simp: searchTaken_def split: option.splits)
  show ?thesis
    using more_follow[OF p1 l1, of "matchingUsers E uq users"]
    by (simp add: getUsers_def matchingUsers_def nt pg lm Let_def skipLimit_page[OF p1 l1]
        less_ceiling_pages[OF l1] sortDesc_length)
      (simp add: ceilDiv_ceiling[OF l1])
qed

text \<open>
  C7. For every list request with page \<open>p\<close> and limit \<open>l\<close>, both at least 1, over the
  \<open>n\<close> matching records, the product listing and (after validation) the user listing
  answer with: currentPage \<open>p\<close>; totalPages the ceiling of \<open>n / l\<close>; the count \<open>n\<close>;
  hasPrevPage exactly when \<open>p > 1\<close>; hasNextPage exactly when records follow the
  returned page in sort order; and as items the records at the positions
  \<open>(p - 1) * l + 1\<close> to \<open>min (p * l) n\<close> of the sort order. This holds for a query the
  store takes, \<open>p\<close> and \<open>l\<close> being the numbers \<open>parseInt\<close> reads, as long as \<open>p * l\<close> and
  the size of the collection are integers that JavaScript's numbers hold exactly. The
  store's ordering of the products is a parameter that returns as many records as it
  is given. The witness is page 2 with limit 10 over 15 products: items 11 to 15, no
  next page, a previous page, 2 pages.
\<close>

theorem pagination_contract:
  assumes p1: "1 \<le> p" and l1: "1 \<le> l" and safe: "safeInteger (p * l)"
      and len: "\<And>s xs. length (sortBy E s xs) = length xs"
  shows "(parseIntOr E 1 (pq_page q) = Some p \<and> parseIntOr E 12 (pq_limit q) = Some l
          \<and> storeTakes E q \<and> safeInteger (int (length products)) \<longrightarrow>
           (\<exists>r. listProducts E q products = Inr r
              \<and> products_of r = spec_page p l (matching E q products)
              \<and> currentPage (products_pagination r) = p
              \<and> totalPages (products_pagination r)
                  = Finite \<lceil>real (length (matching E q products)) / real_of_int l\<rceil>
              \<and> totalItems (products_pagination r) = int (length (matching E q products))
              \<and> hasPrevPage (products_pagination r) = (p > 1)
              \<and> hasNextPage (products_pagination r)
                  = (drop (nat (p * l)) (matching E q products) \<noteq> [])))
       \<and> (parseIntOr E 1 (q_page uq) = Some p \<and> parseIntOr E 10 (q_limit uq) = Some l
          \<and> searchTaken E uq \<and> safeInteger (int (length users)) \<longrightarrow>
           (\<exists>r. getUsers E True uq users = Inr r
              \<and> users_of r = spec_page p l (matchingUsers E uq users)
              \<and> currentPage (users_pagination r) = p
              \<and> totalPages (users_pagination r)
                  = Finite \<lceil>real (length (matchingUsers E uq users)) / real_of_int l\<rceil>
              \<and> totalItems (users_pagination r) = int (length (matchingUsers E uq users))
              \<and> hasPrevPage (users_pagination r) = (p > 1)
              \<and> hasNextPage (users_pagination r)
                  = (drop (nat (p * l)) (matchingUsers E uq users) \<noteq> [])))"
  using listProducts_page[where E = E and q = q and products = products and p = p and l = l,
      OF _ _ _ p1 l1 len]
    getUsers_page[where E = E and uq = uq and users = users and p = p and l = l,
      OF _ _ _ p1 l1]
  by blast

theorem pagination_contract_witness:
  "map_sum id (\<lambda>r. (map p_id (products_of r), products_pagination r))
     (listProducts exEnv (exQuery\<lparr>pq_page := Some ''2'', pq_limit := Some ''10''\<rparr>) exCatalog)
   = Inr ([''11'', ''12'', ''13'', ''14'', ''15''],
          \<lparr> currentPage = 2, totalPages = Finite 2, totalItems = 15,
            hasNextPage = False, hasPrevPage = True \<rparr>)
   \<and> map_sum id (\<lambda>r. (map u_id (users_of r), users_pagination r))
       (getUsers exEnv True exUserQuery exUsers)
   = Inr ([''u3'', ''u2''],
          \<lparr> currentPage = 1, totalPages = Finite 2, totalItems = 3,
            hasNextPage = True, hasPrevPage = False \<rparr>)"
proof -
  let ?q = "exQuery\<lparr>pq_page := Some ''2'', pq_limit := Some ''10''\<rparr>"
  have pq: "parseIntOr exEnv 1 (pq_page ?q) = Some 2 \<and> parseIntOr exEnv 12 (pq_limit ?q) = Some 10"
    by (simp add: parseIntOr_def exEnv_def parseIntAscii_def isSpace_def digitVal_def exQuery_def)
  have uq: "parseIntOr exEnv 1 (q_page exUserQuery) = Some 1
            \<and> parseIntOr exEnv 10 (q_limit exUserQuery) = Some 2"
    by (simp add: parseIntOr_def exEnv_def parseIntAscii_def isSpace_def digitVal_def
        exUserQuery_def)
  have tk: "storeTakes exEnv ?q"
    by (simp add: storeTakes_def castable_def buildFilter_def exEnv_def exQuery_def given_def)
  have st: "searchTaken exEnv exUserQuery"
    by (simp add: searchTaken_def exUserQuery_def)
  have all: "matching exEnv ?q exCatalog = exCatalog"
    by (simp add: matching_def matches_def buildFilter_def exEnv_def exQuery_def exCatalog_def
        exProduct_def given_def givenList_def eqCond_def gteCond_def lteCond_def)
  have srt: "matchingUsers exEnv exUserQuery exUsers = [exOther, exCustomer, exAdmin]"
    by (simp add: matchingUsers_def sortDesc_def userFilter_def exUserQuery_def exUsers_def
        exAdmin_def exCustomer_def exOther_def given_def)
  have sz: "safeInteger (int (length exCatalog))" "safeInteger (int (length exUsers))"
    "safeInteger (2 * 10)" "safeInteger (1 * 2)"
    by (simp_all add: safeInteger_def exCatalog_def exUsers_def)
  have keep: "\<And>s xs. length (sortBy exEnv s xs) = length xs"
    by (simp add: exEnv_def)
  from pagination_contract[where p = 2 and l = 10 and E = exEnv and q = ?q
      and products = exCatalog, OF _ _ sz(3) keep, THEN conjunct1] pq tk sz(1)
  obtain r where r: "listProducts exEnv ?q exCatalog = Inr r"
    and r1: "products_of r = spec_page 2 10 exCatalog"
    and r2: "currentPage (products_pagination r) = 2"
    and r3: "totalPages (products_pagination r) = Finite \<lceil>real (length exCatalog) / 10\<rceil>"
    and r4: "totalItems (products_pagination r) = int (length exCatalog)"
    and r5: "hasPrevPage (products_pagination r) = True"
    and r6: "hasNextPage (products_pagination r) = (drop 20 exCatalog \<noteq> [])"
    by (auto simp: all)
  have a: "map_sum id (\<lambda>r. (map p_id (products_of r), products_pagination r))
     (listProducts exEnv ?q exCatalog)
   = Inr ([''11'', ''12'', ''13'', ''14'', ''15''],
          \<lparr> currentPage = 2, totalPages = Finite 2, totalItems = 15,
            hasNextPage = False, hasPrevPage = True \<rparr>)"
  proof -
    have ids: "map p_id (products_of r) = [''11'', ''12'', ''13'', ''14'', ''15'']"
      by (simp add: r1 spec_page_def exCatalog_def exProduct_def)
    have pgn: "products_pagination r
               = \<lparr> currentPage = 2, totalPages = Finite 2, totalItems = 15,
                   hasNextPage = False, hasPrevPage = True \<rparr>"
      using r2 r3 r4 r5 r6 by (cases "products_pagination r") (simp add: exCatalog_def)
    show ?thesis by (simp add: r ids pgn)
  qed
  from pagination_contract[where p = 1 and l = 2 and E = exEnv and uq = exUserQuery
      and users = exUsers, OF _ _ sz(4) keep, THEN conjunct2] uq st sz(2)
  obtain u where u: "getUsers exEnv True exUserQuery exUsers = Inr u"
    and u1: "users_of u = spec_page 1 2 [exOther, exCustomer, exAdmin]"
    and u2: "currentPage (users_pagination u) = 1"
    and u3: "totalPages (users_pagination u) = Finite \<lceil>(3::real) / 2\<rceil>"
    and u4: "totalItems (users_pagination u) = 3"
    and u5: "hasPrevPage (users_pagination u) = False"
    and u6: "hasNextPage (users_pagination u) = (drop 2 [exOther, exCustomer, exAdmin] \<noteq> [])"
    by (auto simp: srt)
  have b: "map_sum id (\<lambda>r. (map u_id (users_of r), users_pagination r))
       (getUsers exEnv True exUserQuery exUsers)
   = Inr ([''u3'', ''u2''],
          \<lparr> currentPage = 1, totalPages = Finite 2, totalItems = 3,
            hasNextPage = True, hasPrevPage = False \<rparr>)"
  proof -
    have ids: "map u_id (users_of u) = [''u3'', ''u2'']"
      by (simp add: u1 spec_page_def exOther_def exCustomer_def)
    have pgn: "users_pagination u
               = \<lparr> currentPage = 1, totalPages = Finite 2, totalItems = 3,
                   hasNextPage = True, hasPrevPage = False \<rparr>"
      using u2 u3 u4 u5 u6 by (cases "users_pagination u") simp
    show ?thesis by (simp add: u ids pgn)
  qed
  from a b show ?thesis by blast
qed

section \<open>Products: soft delete and the listing\<close>

lemma deleteProduct_stored:
  assumes del: "deleteProduct E i products = (Inr (), products')"
      and cast: "castId E i = Some c"
  shows "\<exists>d\<in>set products'. p_id d = c"
    and "\<And>x. x \<in> set products' \<Longrightarrow> p_id x = c \<Longrightarrow>
              \<not> p_isActive x \<and> availability x = ''Discontinued''"
proof -
  from del cast obtain d where f: "find (\<lambda>x. p_id x = c) products = Some d"
    and p': "products' = save p_id (d\<lparr>p_isActive := False, availability := ''Discontinued''\<rparr>) products"
    by (auto simp: deleteProduct_def findById_def split: if_splits option.splits)
  from find_Some_D[OF f] have d: "d \<in> set products" "p_id d = c" by simp_all
  let ?d = "d\<lparr>p_isActive := False, availability := ''Discontinued''\<rparr>"
  have "(\<lambda>x. if p_id x = p_id ?d then ?d else x) d = ?d" by simp
  with d(1) have "?d \<in> set (save p_id ?d products)"
    unfolding save_def set_map by (rule image_eqI[rotated, OF _ sym])
  with d(2) show "\<exists>d\<in>set products'. p_id d = c"
    unfolding p' by (intro bexI[of _ ?d]) simp_all
  show "\<not> p_isActive x \<and> availability x = ''Discontinued''"
    if "x \<in> set products'" "p_id x = c" for x
    using that d unfolding p' save_def by (auto split: if_splits)
qed

lemma skipLimit_subset: "skipLimit s l xs = Some ys \<Longrightarrow> set ys \<subseteq> set xs"
  by (auto simp: skipLimit_def split: if_splits dest: in_set_takeD in_set_dropD)

lemma listProducts_Inr:
  assumes "listProducts E q products = Inr r"
  shows "\<exists>s l. skipLimit s l (matching E q products) = Some (products_of r)"
proof -
  from assms obtain page limit where
    "parseIntOr E 1 (pq_page q) = Some page" "parseIntOr E 12 (pq_limit q) = Some limit"
    by (cases "parseIntOr E 1 (pq_page q)"; cases "parseIntOr E 12 (pq_limit q)")
       (simp_all add: listProducts_def)
  note pl = this
  from assms pl have tk: "storeTakes E q"
    by (simp add: listProducts_def storeTakes_def Let_def split: if_splits)
  let ?c = "skipLimit ((page - 1) * limit) limit (matching E q products)"
  from assms pl tk obtain found where c: "?c = Some found"
    by (cases ?c) (simp_all add: listProducts_def matching_def storeTakes_def Let_def)
  with assms pl tk have "products_of r = found"
    by (auto simp: listProducts_def matching_def storeTakes_def Let_def)
  with c show ?thesis by blast
qed

lemma listProducts_listed:
  assumes r: "listProducts E q products = Inr r"
      and srt: "\<And>s xs. set (sortBy E s xs) = set xs"
      and x: "x \<in> set (products_of r)"
  shows "x \<in> set products \<and> matches E (buildFilter E q) x"
proof -
  from listProducts_Inr[OF r] obtain s l where
    "skipLimit s l (matching E q products) = Some (products_of r)"
    by blast
  from skipLimit_subset[OF this] x have "x \<in> set (matching E q products)"
    by blast
  then show ?thesis by (simp add: matching_def srt)
qed

lemma buildFilter_isActive: "f_isActive (buildFilter E q) = (\<not> selectsInactive q)"
  by (simp add: buildFilter_def selectsInactive_def split: option.splits)

lemma matches_soft_deleted:
  assumes "\<not> p_isActive x"
  shows "matches E (buildFilter E q) x = (selectsInactive q \<and> meetsOthers E q x)"
  using assms buildFilter_isActive[of E q] by (auto simp: matches_def meetsOthers_def)

lemma spec_page_position:
  assumes k: "k < length recs" and lo: "(p - 1) * l \<le> int k" and hi: "int k < p * l"
  shows "recs ! k \<in> set (spec_page p l recs)"
proof -
  from lo have "nat ((p - 1) * l) \<le> k" by linarith
  moreover from hi have "k < nat (p * l)" by linarith
  ultimately have "k \<in> set [nat ((p - 1) * l) ..< min (nat (p * l)) (length recs)]"
    using k by simp
  then show ?thesis unfolding spec_page_def set_map by (rule imageI)
qed

lemma matching_length:
  assumes len: "\<And>s xs. length (sortBy E s xs) = length xs"
  shows "length (matching E q products) \<le> length products"
  by (simp add: matching_def len)

text \<open>
  C2. For every product that is soft-deleted (whatever \<open>isActive\<close> it had, the default
  of its creation included), it stays stored, inactive and Discontinued, and: the
  product listing with no \<open>isActive\<close> parameter does not list it; a listing that lists
  it was asked with an \<open>isActive\<close> parameter that selects inactive products; the product
  matches the filter of a query exactly when the query has such a parameter and the
  product meets the other conditions of the query; and then it is among the records
  the listing ranges over, the listing answers with the page of these records, and the
  product is listed on every page that covers a position it has among them, so on a
  first page that holds the whole collection. The store's ordering is a parameter that
  returns the records it is given.
\<close>

theorem soft_deleted_listing:
  assumes del: "deleteProduct E i products = (Inr (), products')"
      and cast: "castId E i = Some c"
      and srt: "\<And>s xs. set (sortBy E s xs) = set xs"
      and len: "\<And>s xs. length (sortBy E s xs) = length xs"
  shows "(pq_isActive q = None \<longrightarrow>
            (\<forall>r. listProducts E q products' = Inr r \<longrightarrow> c \<notin> p_id ` set (products_of r)))
       \<and> (\<forall>r. listProducts E q products' = Inr r \<and> c \<in> p_id ` set (products_of r) \<longrightarrow>
                selectsInactive q)
       \<and> (\<exists>x\<in>set products'. p_id x = c)
       \<and> (\<forall>x\<in>set products'. p_id x = c \<longrightarrow>
             \<not> p_isActive x \<and> availability x = ''Discontinued''
             \<and> matches E (buildFilter E q) x = (selectsInactive q \<and> meetsOthers E q x)
             \<and> (\<forall>r. listProducts E q products' = Inr r \<and> x \<in> set (products_of r) \<longrightarrow>
                     selectsInactive q \<and> meetsOthers E q x)
             \<and> (selectsInactive q \<and> meetsOthers E q x \<and> storeTakes E q
                 \<and> parseIntOr E 1 (pq_page q) = Some p \<and> parseIntOr E 12 (pq_limit q) = Some l
                 \<and> 1 \<le> p \<and> 1 \<le> l \<longrightarrow>
                 x \<in> set (matching E q products')
                 \<and> (\<exists>r. listProducts E q products' = Inr r
                       \<and> products_of r = spec_page p l (matching E q products')
                       \<and> (\<forall>k. k < length (matching E q products')
                               \<and> matching E q products' ! k = x
                               \<and> (p - 1) * l \<le> int k \<and> int k < p * l \<longrightarrow>
                               x \<in> set (products_of r))
                       \<and> (p = 1 \<and> int (length products') \<le> l \<longrightarrow>
                            x \<in> set (products_of r)))))"
proof -
  have only: "selectsInactive q"
    if "listProducts E q products' = Inr r"
      and "c \<in> p_id ` set (products_of r)" for r
  proof -
    from that(2) obtain x where x: "x \<in> set (products_of r)" "p_id x = c" by auto
    from listProducts_listed[OF that(1) srt x(1)]
    have "x \<in> set products'" "matches E (buildFilter E q) x" by simp_all
    with deleteProduct_stored(2)[OF del cast this(1) x(2)] show ?thesis
      by (simp add: matches_soft_deleted)
  qed
  have none: "\<not> selectsInactive q" if "pq_isActive q = None"
    using that by (simp add: selectsInactive_def)
  have one: "\<not> p_isActive x \<and> availability x = ''Discontinued''
             \<and> matches E (buildFilter E q) x = (selectsInactive q \<and> meetsOthers E q x)
             \<and> (\<forall>r. listProducts E q products' = Inr r \<and> x \<in> set (products_of r) \<longrightarrow>
                     selectsInactive q \<and> meetsOthers E q x)
             \<and> (selectsInactive q \<and> meetsOthers E q x \<and> storeTakes E q
                 \<and> parseIntOr E 1 (pq_page q) = Some p \<and> parseIntOr E 12 (pq_limit q) = Some l
                 \<and> 1 \<le> p \<and> 1 \<le> l \<longrightarrow>
                 x \<in> set (matching E q products')
                 \<and> (\<exists>r. listProducts E q products' = Inr r
                       \<and> products_of r = spec_page p l (matching E q products')
                       \<and> (\<forall>k. k < length (matching E q products')
                               \<and> matching E q products' ! k = x
                               \<and> (p - 1) * l \<le> int k \<and> int k < p * l \<longrightarrow>
                               x \<in> set (products_of r))
                       \<and> (p = 1 \<and> int (length products') \<le> l \<longrightarrow>
                            x \<in> set (products_of r))))"
    if x: "x \<in> set products'" "p_id x = c" for x
  proof -
    from deleteProduct_stored(2)[OF del cast x]
    have off: "\<not> p_isActive x" and disc: "availability x = ''Discontinued''" by simp_all
    note m = matches_soft_deleted[OF off, of E q]
    have listed: "selectsInactive q \<and> meetsOthers E q x"
      if "listProducts E q products' = Inr r" "x \<in> set (products_of r)" for r
      using listProducts_listed[OF that(1) srt that(2)] m by simp
    have again: "x \<in> set (matching E q products')
                 \<and> (\<exists>r. listProducts E q products' = Inr r
                       \<and> products_of r = spec_page p l (matching E q products')
                       \<and> (\<forall>k. k < length (matching E q products')
                               \<and> matching E q products' ! k = x
                               \<and> (p - 1) * l \<le> int k \<and> int k < p * l \<longrightarrow>
                               x \<in> set (products_of r))
                       \<and> (p = 1 \<and> int (length products') \<le> l \<longrightarrow>
                            x \<in> set (products_of r)))"
      if s: "selectsInactive q" "meetsOthers E q x" and tk: "storeTakes E q"
        and pg: "parseIntOr E 1 (pq_page q) = Some p"
        and lm: "parseIntOr E 12 (pq_limit q) = Some l" and p1: "1 \<le> p" and l1: "1 \<le> l"
    proof -
      let ?recs = "matching E q products'"
      from s m x(1) have in_recs: "x \<in> set ?recs" by (simp add: matching_def srt)
      from listProducts_page[OF pg lm tk p1 l1 len, of products']
      obtain r where r: "listProducts E q products' = Inr r"
        and pr: "products_of r = spec_page p l ?recs"
        by blast
      have pos: "x \<in> set (products_of r)"
        if "k < length ?recs" "?recs ! k = x" "(p - 1) * l \<le> int k" "int k < p * l" for k
        using spec_page_position[OF that(1,3,4)] that(2) pr by simp
      have whole: "x \<in> set (products_of r)" if "p = 1" "int (length products') \<le> l"
      proof -
        from in_recs obtain k where k: "k < length ?recs" "?recs ! k = x"
          by (auto simp: in_set_conv_nth)
        from k(1) matching_length[OF len, of q products'] that(2) have "int k < l" by linarith
        with that(1) pos[OF k] show ?thesis by simp
      qed
      from in_recs r pr pos whole show ?thesis by blast
    qed
    from off disc m listed again show ?thesis by blast
  qed
  from only none deleteProduct_stored(1)[OF del cast] one show ?thesis by blast
qed

theorem soft_deleted_listing_witness:
  "fst (deleteProduct exEnv ''p1'' [exProduct ''p1'', exProduct ''p2'']) = Inr ()
   \<and> map_sum id (\<lambda>r. map p_id (products_of r))
        (listProducts exEnv (exQuery\<lparr>pq_category := Some ''Laptops''\<rparr>)
           (snd (deleteProduct exEnv ''p1'' [exProduct ''p1'', exProduct ''p2''])))
       = Inr [''p2'']
   \<and> map_sum id (\<lambda>r. map p_id (products_of r))
        (listProducts exEnv
           (exQuery\<lparr>pq_category := Some ''Laptops'', pq_isActive := Some (JStr ''false'')\<rparr>)
           (snd (deleteProduct exEnv ''p1'' [exProduct ''p1'', exProduct ''p2''])))
       = Inr [''p1'']
   \<and> map_sum id (\<lambda>r. map p_id (products_of r))
        (listProducts exEnv
           (exQuery\<lparr>pq_category := Some ''Phones'', pq_isActive := Some (JStr ''false'')\<rparr>)
           (snd (deleteProduct exEnv ''p1'' [exProduct ''p1'', exProduct ''p2''])))
       = Inr []
   \<and> map_sum id (\<lambda>r. map p_id (products_of r))
        (listProducts exEnv
           (exQuery\<lparr>pq_category := Some ''Laptops'', pq_isActive := Some (JStr ''true'')\<rparr>)
           (snd (deleteProduct exEnv ''p1'' [exProduct ''p1'', exProduct ''p2''])))
       = Inr [''p2'']"
proof -
  let ?ps = "[exProduct ''p1'', exProduct ''p2'']"
  let ?ps' = "snd (deleteProduct exEnv ''p1'' ?ps)"
  let ?gone = "(exProduct ''p1'')\<lparr>p_isActive := False, availability := ''Discontinued''\<rparr>"
  let ?q0 = "exQuery\<lparr>pq_category := Some ''Laptops''\<rparr>"
  let ?q1 = "exQuery\<lparr>pq_category := Some ''Laptops'', pq_isActive := Some (JStr ''false'')\<rparr>"
  let ?q2 = "exQuery\<lparr>pq_category := Some ''Phones'', pq_isActive := Some (JStr ''false'')\<rparr>"
  let ?q3 = "exQuery\<lparr>pq_category := Some ''Laptops'', pq_isActive := Some (JStr ''true'')\<rparr>"
  have ps': "?ps' = [?gone, exProduct ''p2'']"
    by (simp add: deleteProduct_def findById_def save_def exEnv_def exProduct_def)
  have del: "deleteProduct exEnv ''p1'' ?ps = (Inr (), ?ps')"
    by (simp add: deleteProduct_def findById_def exEnv_def exProduct_def)
  have cast: "castId exEnv ''p1'' = Some ''p1''" by (simp add: exEnv_def)
  have keep: "\<And>s xs. set (sortBy exEnv s xs) = set xs"
    "\<And>s xs. length (sortBy exEnv s xs) = length xs"
    by (simp_all add: exEnv_def)
  note ev = listProducts_def Let_def parseIntOr_def skipLimit_def matches_def castable_def
    buildFilter_def exEnv_def exQuery_def exProduct_def given_def givenList_def eqCond_def
    gteCond_def lteCond_def
  have d: "map_sum id (\<lambda>r. map p_id (products_of r)) (listProducts exEnv ?q0 ?ps') = Inr [''p2'']"
    unfolding ps' by (simp add: ev)
  have o2: "map_sum id (\<lambda>r. map p_id (products_of r)) (listProducts exEnv ?q2 ?ps') = Inr []"
    unfolding ps' by (simp add: ev)
  have o3: "map_sum id (\<lambda>r. map p_id (products_of r)) (listProducts exEnv ?q3 ?ps')
            = Inr [''p2'']"
    unfolding ps' by (simp add: ev)
  have gone: "?gone \<in> set ?ps'" "p_id ?gone = ''p1''"
    unfolding ps' by (simp_all add: exProduct_def)
  have h: "selectsInactive ?q1 \<and> meetsOthers exEnv ?q1 ?gone \<and> storeTakes exEnv ?q1
           \<and> parseIntOr exEnv 1 (pq_page ?q1) = Some 1
           \<and> parseIntOr exEnv 12 (pq_limit ?q1) = Some 12 \<and> (1::int) \<le> 1 \<and> (1::int) \<le> 12"
    by (simp add: selectsInactive_def meetsOthers_def storeTakes_def ev)
  have sz: "(1::int) = 1 \<and> int (length ?ps') \<le> 12"
    unfolding ps' by simp
  from soft_deleted_listing[OF del cast keep, where q = ?q1 and p = 1 and l = 12,
      THEN conjunct2, THEN conjunct2, THEN conjunct2, THEN bspec, OF gone(1)] gone(2) h sz
  obtain r where r: "listProducts exEnv ?q1 ?ps' = Inr r"
    and pr: "products_of r = spec_page 1 12 (matching exEnv ?q1 ?ps')"
    and inr: "?gone \<in> set (products_of r)"
    by blast
  have "matching exEnv ?q1 ?ps' = [?gone]"
    unfolding ps' by (simp add: matching_def ev)
  with pr have "map p_id (products_of r) = [''p1'']"
    by (simp add: spec_page_def exProduct_def)
  with r have o1: "map_sum id (\<lambda>r. map p_id (products_of r)) (listProducts exEnv ?q1 ?ps')
                   = Inr [''p1'']"
    by simp
  from del have del1: "fst (deleteProduct exEnv ''p1'' ?ps) = Inr ()"
    by (metis fst_conv)
  from del1 d o1 o2 o3 show ?thesis by blast
qed

section \<open>Products: images and their identifiers\<close>

text \<open>
  C3. The images and the imagePublicIds of a product are to stay aligned index by index
  through every update. \<open>updateProduct\<close> removes the identifiers named by
  \<open>removePublicIds\<close> and leaves the images as they are: removing \<open>img-a\<close> from a product
  with two images leaves two URLs and one identifier, and the remaining identifier
  \<open>img-b\<close> stands at the position of the URL of \<open>img-a\<close>.
\<close>

theorem updateProduct_removal_breaks_alignment:
  "map_sum id (\<lambda>d. (images d, imagePublicIds d))
     (fst (updateProduct exEnv ''p1''
             (exProductBody\<lparr>pb_removePublicIds := Some (Text ''img-a'')\<rparr>) []
             [exProduct ''p1'']))
   = Inr ([''https://img/a'', ''https://img/b''], [''img-b''])
   \<and> (images (exProduct ''p1''), imagePublicIds (exProduct ''p1''))
     = ([''https://img/a'', ''https://img/b''], [''img-a'', ''img-b''])"
  by (simp add: updateProduct_def findById_def Let_def givenList_def removeIdsOf_def exEnv_def
      trimAscii_def isSpace_def exProductBody_def exProduct_def)

text \<open>
  Without a removal the two lists keep their common length: when every upload carries a
  URL and an identifier, a created product has as many identifiers as images, and an
  update that removes nothing keeps it so.
\<close>

lemma pick_length:
  "list_all (\<lambda>f. given (firstGiven (a f) (b f))) files \<Longrightarrow> length (pick a b files) = length files"
  by (induction files) (auto simp: pick_def List.map_filter_def given_def split: option.splits)

lemma created_images_aligned:
  assumes up: "list_all (\<lambda>f. given (firstGiven (path f) (secure_url f))) files"
              "list_all (\<lambda>f. given (firstGiven (filename f) (public_id f))) files"
      and c: "createProduct E actor newId b files products = (Inr d, ps')"
  shows "length (images d) = length (imagePublicIds d)"
proof -
  from c obtain spec where
    "images d = pick path secure_url files" "imagePublicIds d = pick filename public_id files"
    by (auto simp: createProduct_def Let_def split: if_splits option.splits)
  with pick_length[OF up(1)] pick_length[OF up(2)] show ?thesis by simp
qed

lemma updated_images_aligned:
  assumes up: "list_all (\<lambda>f. given (firstGiven (path f) (secure_url f))) files"
              "list_all (\<lambda>f. given (firstGiven (filename f) (public_id f))) files"
      and u: "updateProduct E i b files products = (Inr d, ps')"
      and nr: "\<not> givenList (pb_removePublicIds b)"
      and f: "findById E p_id products i = Some (Some p0)"
      and al: "length (images p0) = length (imagePublicIds p0)"
  shows "length (images d) = length (imagePublicIds d)"
proof -
  from u f nr have
    "images d = (if files \<noteq> [] then images p0 @ pick path secure_url files else images p0)"
    "imagePublicIds d
     = (if files \<noteq> [] then imagePublicIds p0 @ pick filename public_id files
        else imagePublicIds p0)"
    by (cases "files = []"; simp add: updateProduct_def Let_def; fastforce)+
  with pick_length[OF up(1)] pick_length[OF up(2)] al show ?thesis by simp
qed

section \<open>Products: features and tags as a list or as text\<close>



















end
